theory Spec2Isabelle
  imports Main "HOL-Library.Sublist"
begin

section \<open>JavaScript values\<close>

text \<open>
  The catalog responses handled by \<^verbatim>\<open>album.js\<close> and \<^verbatim>\<open>artist.js\<close> are JSON documents.
  Numbers are the integer-valued ones (the only numbers the entries inspect are limits and
  ids); an object is its list of properties, the first binding of a key being its value.
\<close>

datatype jsval =
    Undefined
  | Null
  | JBool bool
  | JNum int
  | JStr string
  | JArr "jsval list"
  | JObj "(string \<times> jsval) list"

text \<open>What \<^verbatim>\<open>if (v)\<close> and \<^verbatim>\<open>v && ...\<close> test.\<close>

fun truthy :: "jsval \<Rightarrow> bool" where
  "truthy Undefined = False"
| "truthy Null = False"
| "truthy (JBool b) = b"
| "truthy (JNum n) = (n \<noteq> 0)"
| "truthy (JStr s) = (s \<noteq> [])"
| "truthy (JArr xs) = True"
| "truthy (JObj kvs) = True"

text \<open>
  A promise is rejected, or a callback throws, with a reason: the \<^verbatim>\<open>TypeError\<close> the engine
  raises when a property of \<^verbatim>\<open>undefined\<close> or \<^verbatim>\<open>null\<close> is read or a missing method is
  called, or a value passed to \<^verbatim>\<open>Promise.reject\<close>. A settled promise is \<open>Inl\<close> of the reason
  or \<open>Inr\<close> of the value.
\<close>

datatype reason = TypeError | Reason jsval

definition bindE :: "reason + 'a \<Rightarrow> ('a \<Rightarrow> reason + 'b) \<Rightarrow> reason + 'b" where
  "bindE m f = (case m of Inl e \<Rightarrow> Inl e | Inr v \<Rightarrow> f v)"

text \<open>\<^verbatim>\<open>v.k\<close> for a property name \<open>k\<close>.\<close>

fun get :: "jsval \<Rightarrow> string \<Rightarrow> reason + jsval" where
  "get Undefined k = Inl TypeError"
| "get Null k = Inl TypeError"
| "get (JObj kvs) k = Inr (case map_of kvs k of Some v \<Rightarrow> v | None \<Rightarrow> Undefined)"
| "get (JArr xs) k = Inr (if k = ''length'' then JNum (int (length xs)) else Undefined)"
| "get (JStr s) k = Inr (if k = ''length'' then JNum (int (length s)) else Undefined)"
| "get (JNum n) k = Inr Undefined"
| "get (JBool b) k = Inr Undefined"

text \<open>\<^verbatim>\<open>v[0]\<close>.\<close>

fun get0 :: "jsval \<Rightarrow> reason + jsval" where
  "get0 Undefined = Inl TypeError"
| "get0 Null = Inl TypeError"
| "get0 (JArr xs) = Inr (case xs of [] \<Rightarrow> Undefined | x # _ \<Rightarrow> x)"
| "get0 (JObj kvs) = Inr (case map_of kvs ''0'' of Some v \<Rightarrow> v | None \<Rightarrow> Undefined)"
| "get0 (JStr s) = Inr (case s of [] \<Rightarrow> Undefined | c # _ \<Rightarrow> JStr [c])"
| "get0 (JNum n) = Inr Undefined"
| "get0 (JBool b) = Inr Undefined"

text \<open>
  \<^verbatim>\<open>a && b\<close>: the value of \<open>a\<close> when it is falsy, else the value of \<open>b\<close>; \<open>b\<close> is not
  evaluated (and cannot throw) when \<open>a\<close> is falsy.
\<close>

definition andand :: "reason + jsval \<Rightarrow> (jsval \<Rightarrow> reason + jsval) \<Rightarrow> reason + jsval" where
  "andand a b = (case a of Inl e \<Rightarrow> Inl e | Inr v \<Rightarrow> if truthy v then b v else Inr v)"

section \<open>Strings\<close>

definition is_space :: "char \<Rightarrow> bool" where
  "is_space c = (of_char c \<in> {9, 10, 11, 12, 13, 32, 160 :: nat})"

text \<open>\<^verbatim>\<open>String.prototype.trim\<close>.\<close>

definition trim :: "string \<Rightarrow> string" where
  "trim s = rev (dropWhile is_space (rev (dropWhile is_space s)))"

text \<open>The character class \<^verbatim>\<open>[0-9a-z]\<close> under the \<^verbatim>\<open>i\<close> flag.\<close>

definition is_alnum :: "char \<Rightarrow> bool" where
  "is_alnum c = (let n = (of_char c :: nat) in
     (48 \<le> n \<and> n \<le> 57) \<or> (97 \<le> n \<and> n \<le> 122) \<or> (65 \<le> n \<and> n \<le> 90))"

text \<open>
  \<^verbatim>\<open>entry.match(/[0-9a-z]+$/i)\<close> is truthy when the pattern matches at some start position:
  one or more characters of the class, then the end of the input.
\<close>

fun match_id :: "string \<Rightarrow> bool" where
  "match_id [] = False"
| "match_id (c # cs) = (list_all is_alnum (c # cs) \<or> match_id cs)"

section \<open>The catalog client\<close>

text \<open>
  \<^verbatim>\<open>spotify.js\<close> is an external collaborator: each request takes the state of the remote
  side and settles with a reason or a response. The world records every request issued and
  every value written to the console.
\<close>

datatype call =
    SearchForAlbum string
  | SearchForArtist string
  | GetAlbum jsval
  | GetAlbumsByArtist jsval

record 'w spotify =
  searchForAlbum_rq :: "string \<Rightarrow> 'w \<Rightarrow> (reason + jsval) \<times> 'w"
  searchForArtist_rq :: "string \<Rightarrow> 'w \<Rightarrow> (reason + jsval) \<times> 'w"
  getAlbum_rq :: "jsval \<Rightarrow> 'w \<Rightarrow> (reason + jsval) \<times> 'w"
  getAlbumsByArtist_rq :: "jsval \<Rightarrow> 'w \<Rightarrow> (reason + jsval) \<times> 'w"

record 'w world =
  remote :: 'w
  calls :: "call list"
  console :: "jsval list"

definition request :: "('w \<Rightarrow> (reason + jsval) \<times> 'w) \<Rightarrow> call \<Rightarrow> 'w world
    \<Rightarrow> (reason + jsval) \<times> 'w world" where
  "request rq c w =
     (case rq (remote w) of (r, s) \<Rightarrow> (r, w\<lparr>remote := s, calls := calls w @ [c]\<rparr>))"

definition console_log :: "jsval \<Rightarrow> 'w world \<Rightarrow> 'w world" where
  "console_log v w = w\<lparr>console := console w @ [v]\<rparr>"

text \<open>
  What a resolved promise of the entries carries: a value, or the entry itself
  (\<^verbatim>\<open>return self\<close>).
\<close>

datatype sval = Val jsval | Self

section \<open>Album entries (album.js)\<close>

record album =
  albumResponse :: jsval
  al_entry :: string
  al_limit :: "int option"
  al_searchResponse :: jsval
  fetchTracks :: bool
  al_id :: jsval

text \<open>
  The limit is \<^verbatim>\<open>null\<close> (\<open>None\<close>) or an integer: the constructor writes \<^verbatim>\<open>null\<close>, and
  \<^verbatim>\<open>setLimit\<close>, the only other write, stores its argument when \<^verbatim>\<open>Number.isInteger\<close> holds
  of it, which it does of the numbers of the model and of nothing else.
\<close>

definition Album_setLimit :: "album \<Rightarrow> jsval \<Rightarrow> album" where
  "Album_setLimit a l = (case l of JNum n \<Rightarrow> a\<lparr>al_limit := Some n\<rparr> | _ \<Rightarrow> a)"

definition new_Album :: "string \<Rightarrow> jsval \<Rightarrow> jsval \<Rightarrow> album" where
  "new_Album e i l =
     Album_setLimit
       \<lparr>albumResponse = Null, al_entry = trim e, al_limit = None, al_searchResponse = Null,
        fetchTracks = True, al_id = i\<rparr> l"

text \<open>
  The guard of \<^verbatim>\<open>searchForAlbum\<close>'s success callback:
  \<^verbatim>\<open>sr && sr.albums && sr.albums.items && sr.albums.items[0] && sr.albums.items[0].id\<close>.
\<close>

definition album_hit_id :: "jsval \<Rightarrow> reason + jsval" where
  "album_hit_id sr =
     andand (Inr sr) (\<lambda>_.
     andand (get sr ''albums'') (\<lambda>al.
     andand (get al ''items'') (\<lambda>its.
     andand (get0 its) (\<lambda>hit. get hit ''id''))))"

text \<open>
  The \<^verbatim>\<open>.then\<close> callback of the search: stores the result and adopts the first hit's id.
  It returns the entry; the state it leaves is kept also when it throws.
\<close>

definition album_search_then :: "album \<Rightarrow> jsval \<Rightarrow> (reason + sval) \<times> album" where
  "album_search_then a result =
     (let a1 = a\<lparr>al_searchResponse := result\<rparr> in
      case album_hit_id result of
        Inl e \<Rightarrow> (Inl e, a1)
      | Inr v \<Rightarrow> if truthy v then (Inr Self, a1\<lparr>al_id := v\<rparr>) else (Inr Self, a1))"

text \<open>The \<^verbatim>\<open>.catch\<close> callback: the identifier fallback, or the rejection with \<^verbatim>\<open>null\<close>.\<close>

definition album_search_catch :: "album \<Rightarrow> 'w world \<Rightarrow> (reason + sval) \<times> album \<times> 'w world" where
  "album_search_catch a w =
     (if match_id (al_entry a)
      then (Inr (Val (JStr (al_entry a))), a\<lparr>al_id := JStr (al_entry a)\<rparr>, w)
      else (Inl (Reason Null), a, console_log (JStr (''COULD NOT FIND '' @ al_entry a)) w))"

definition searchForAlbum :: "'w spotify \<Rightarrow> album \<Rightarrow> 'w world
    \<Rightarrow> (reason + sval) \<times> album \<times> 'w world" where
  "searchForAlbum sp a w =
     (if truthy (al_searchResponse a) then (Inr (Val (al_searchResponse a)), a, w)
      else if truthy (albumResponse a) then (Inr (Val (albumResponse a)), a, w)
      else if truthy (al_id a) then (Inr (Val (al_id a)), a, w)
      else
        case request (searchForAlbum_rq sp (al_entry a)) (SearchForAlbum (al_entry a)) w of
          (Inr result, w1) \<Rightarrow>
            (case album_search_then a result of
               (Inr v, a1) \<Rightarrow> (Inr v, a1, w1)
             | (Inl e, a1) \<Rightarrow> album_search_catch a1 w1)
        | (Inl e, w1) \<Rightarrow> album_search_catch a w1)"

text \<open>
  \<^verbatim>\<open>setResponse\<close>: a search response (its first hit has an id) or a full album object.
  The first branch writes \<^verbatim>\<open>response.id\<close>, not the id of the hit the guard has just tested.
\<close>

definition Album_setResponse :: "album \<Rightarrow> jsval \<Rightarrow> reason + album" where
  "Album_setResponse a response =
     bindE (andand (Inr response) (\<lambda>_.
            andand (get response ''albums'') (\<lambda>al.
            andand (bindE (get al ''items'') get0) (\<lambda>hit. get hit ''id'')))) (\<lambda>c1.
     if truthy c1
     then bindE (get response ''id'') (\<lambda>i.
          Inr (a\<lparr>al_searchResponse := response, al_id := i\<rparr>))
     else bindE (andand (Inr response) (\<lambda>_. get response ''id'')) (\<lambda>c2.
          if truthy c2
          then bindE (get response ''id'') (\<lambda>i.
               Inr (a\<lparr>albumResponse := response, al_id := i\<rparr>))
          else Inr a))"

definition Album_title :: "album \<Rightarrow> reason + jsval" where
  "Album_title a =
     bindE (andand (Inr (albumResponse a)) (\<lambda>r. get r ''name'')) (\<lambda>c1.
     if truthy c1 then get (albumResponse a) ''name''
     else bindE (andand (Inr (al_searchResponse a)) (\<lambda>sr.
                 andand (get sr ''albums'') (\<lambda>al.
                 andand (bindE (get al ''items'') get0) (\<lambda>hit. get hit ''name'')))) (\<lambda>c2.
          if truthy c2
          then bindE (get (al_searchResponse a) ''albums'') (\<lambda>al.
               bindE (get al ''items'') (\<lambda>its.
               bindE (get0 its) (\<lambda>hit. get hit ''name'')))
          else Inr (JStr [])))"

definition fetchAlbum :: "'w spotify \<Rightarrow> album \<Rightarrow> 'w world
    \<Rightarrow> (reason + sval) \<times> album \<times> 'w world" where
  "fetchAlbum sp a w =
     (case request (getAlbum_rq sp (al_id a)) (GetAlbum (al_id a)) w of
        (Inr response, w1) \<Rightarrow> (Inr Self, a\<lparr>albumResponse := response\<rparr>, w1)
      | (Inl e, w1) \<Rightarrow> (Inl e, a, w1))"

subsection \<open>Tracks and queues\<close>

text \<open>
  Modelled from the spec: \<^verbatim>\<open>track.js\<close> is not among the sources. A Track entry is
  \<^verbatim>\<open>{ reference, albumTitle?, resolvedMetadata? }\<close>: the constructor takes the reference,
  \<^verbatim>\<open>setResponse\<close> stores the catalog metadata and \<^verbatim>\<open>setAlbum\<close> the album title.
\<close>

record track =
  tr_entry :: string
  tr_response :: jsval
  tr_album :: jsval

definition new_Track :: "string \<Rightarrow> track" where
  "new_Track e = \<lparr>tr_entry = e, tr_response = Null, tr_album = Null\<rparr>"

definition Track_setResponse :: "track \<Rightarrow> jsval \<Rightarrow> track" where
  "Track_setResponse t response = t\<lparr>tr_response := response\<rparr>"

definition Track_setAlbum :: "track \<Rightarrow> jsval \<Rightarrow> track" where
  "Track_setAlbum t title = t\<lparr>tr_album := title\<rparr>"

text \<open>
  Modelled from the spec: \<^verbatim>\<open>queue.js\<close> is not among the sources. A Queue is an ordered
  sequence that supports bounded slicing, sequential asynchronous transformation (one
  element at a time, in order, the results collected in the same order), flattening of one
  level, filtering by a predicate and stable sorting by a comparator. The slice takes its
  bounds as \<^verbatim>\<open>Array.prototype.slice\<close> does: a negative bound counts from the end.
\<close>

definition slice_bound :: "int \<Rightarrow> nat \<Rightarrow> nat" where
  "slice_bound i n = (if i < 0 then nat (int n + i) else min (nat i) n)"

definition Queue_slice :: "int \<Rightarrow> int \<Rightarrow> 'a list \<Rightarrow> 'a list" where
  "Queue_slice s e xs =
     (let lo = slice_bound s (length xs); hi = slice_bound e (length xs)
      in take (hi - lo) (drop lo xs))"

text \<open>\<^verbatim>\<open>items.map(f)\<close>: a \<^verbatim>\<open>TypeError\<close> unless \<open>items\<close> is an array; \<open>f\<close> may throw.\<close>

fun mapE :: "('a \<Rightarrow> reason + 'b) \<Rightarrow> 'a list \<Rightarrow> reason + 'b list" where
  "mapE f [] = Inr []"
| "mapE f (x # xs) = bindE (f x) (\<lambda>y. bindE (mapE f xs) (\<lambda>ys. Inr (y # ys)))"

definition js_map :: "jsval \<Rightarrow> (jsval \<Rightarrow> reason + 'a) \<Rightarrow> reason + 'a list" where
  "js_map v f = (case v of JArr xs \<Rightarrow> mapE f xs | _ \<Rightarrow> Inl TypeError)"

subsection \<open>Expansion of an album into its tracks\<close>

definition Album_createQueue :: "album \<Rightarrow> reason + track list" where
  "Album_createQueue a =
     bindE (get (albumResponse a) ''tracks'') (\<lambda>tr.
     bindE (get tr ''items'') (\<lambda>its.
     bindE (js_map its (\<lambda>item.
              bindE (Album_title a) (\<lambda>title.
              Inr (Track_setAlbum (Track_setResponse (new_Track (al_entry a)) item) title))))
       (\<lambda>queue.
     Inr (case al_limit a of
            Some k \<Rightarrow> if k \<noteq> 0 then Queue_slice 0 k queue else queue
          | None \<Rightarrow> queue))))"

text \<open>What \<^verbatim>\<open>dispatch\<close> resolves with: a queue of tracks, or what the search resolved with.\<close>

datatype dispatched = DQueue "track list" | DVal sval

definition Album_dispatch :: "'w spotify \<Rightarrow> album \<Rightarrow> 'w world
    \<Rightarrow> (reason + dispatched) \<times> album \<times> 'w world" where
  "Album_dispatch sp a w =
     (if fetchTracks a then
        case searchForAlbum sp a w of
          (Inl e, a1, w1) \<Rightarrow> (Inl e, a1, w1)
        | (Inr _, a1, w1) \<Rightarrow>
            (case fetchAlbum sp a1 w1 of
               (Inl e, a2, w2) \<Rightarrow> (Inl e, a2, w2)
             | (Inr _, a2, w2) \<Rightarrow>
                 (case Album_createQueue a2 of
                    Inl e \<Rightarrow> (Inl e, a2, w2)
                  | Inr q \<Rightarrow> (Inr (DQueue q), a2, w2)))
      else
        case searchForAlbum sp a w of
          (Inl e, a1, w1) \<Rightarrow> (Inl e, a1, w1)
        | (Inr v, a1, w1) \<Rightarrow> (Inr (DVal v), a1, w1))"

section \<open>Artist entries (artist.js)\<close>

record artist =
  artistResponse :: jsval
  albumsResponse :: jsval
  ar_entry :: string
  ar_limit :: "int option"
  ar_searchResponse :: jsval
  ar_id :: jsval

definition Artist_setLimit :: "artist \<Rightarrow> jsval \<Rightarrow> artist" where
  "Artist_setLimit a l = (case l of JNum n \<Rightarrow> a\<lparr>ar_limit := Some n\<rparr> | _ \<Rightarrow> a)"

definition new_Artist :: "string \<Rightarrow> jsval \<Rightarrow> jsval \<Rightarrow> artist" where
  "new_Artist e i l =
     Artist_setLimit
       \<lparr>artistResponse = Null, albumsResponse = Null, ar_entry = trim e, ar_limit = None,
        ar_searchResponse = Null, ar_id = i\<rparr> l"

text \<open>
  The guard of \<^verbatim>\<open>searchForArtist\<close>'s success callback:
  \<^verbatim>\<open>sr && sr.artists && sr.artists.items[0] && sr.artists.items[0].id\<close>. Unlike the album's
  it does not test \<^verbatim>\<open>sr.artists.items\<close> before indexing it.
\<close>

definition artist_hit_id :: "jsval \<Rightarrow> reason + jsval" where
  "artist_hit_id sr =
     andand (Inr sr) (\<lambda>_.
     andand (get sr ''artists'') (\<lambda>ar.
     andand (bindE (get ar ''items'') get0) (\<lambda>hit. get hit ''id'')))"

definition artist_search_then :: "artist \<Rightarrow> jsval \<Rightarrow> 'w world
    \<Rightarrow> (reason + sval) \<times> artist \<times> 'w world" where
  "artist_search_then a result w =
     (let a1 = a\<lparr>ar_searchResponse := result\<rparr>; w1 = console_log result w in
      case artist_hit_id result of
        Inl e \<Rightarrow> (Inl e, a1, w1)
      | Inr v \<Rightarrow> if truthy v then (Inr Self, a1\<lparr>ar_id := v\<rparr>, w1) else (Inr Self, a1, w1))"

definition artist_search_catch :: "artist \<Rightarrow> 'w world \<Rightarrow> (reason + sval) \<times> artist \<times> 'w world" where
  "artist_search_catch a w =
     (if match_id (ar_entry a)
      then (Inr (Val (JStr (ar_entry a))), a\<lparr>ar_id := JStr (ar_entry a)\<rparr>, w)
      else (Inl (Reason Null), a, w))"

definition searchForArtist :: "'w spotify \<Rightarrow> artist \<Rightarrow> 'w world
    \<Rightarrow> (reason + sval) \<times> artist \<times> 'w world" where
  "searchForArtist sp a w =
     (if truthy (ar_searchResponse a) then (Inr (Val (ar_searchResponse a)), a, w)
      else if truthy (artistResponse a) then (Inr (Val (artistResponse a)), a, w)
      else if truthy (ar_id a) then (Inr (Val (ar_id a)), a, w)
      else
        case request (searchForArtist_rq sp (ar_entry a)) (SearchForArtist (ar_entry a)) w of
          (Inr result, w1) \<Rightarrow>
            (case artist_search_then a result w1 of
               (Inr v, a1, w2) \<Rightarrow> (Inr v, a1, w2)
             | (Inl e, a1, w2) \<Rightarrow> artist_search_catch a1 w2)
        | (Inl e, w1) \<Rightarrow> artist_search_catch a w1)"

definition Artist_setResponse :: "artist \<Rightarrow> jsval \<Rightarrow> reason + artist" where
  "Artist_setResponse a response =
     bindE (andand (Inr response) (\<lambda>_.
            andand (get response ''artists'') (\<lambda>ar.
            andand (bindE (get ar ''items'') get0) (\<lambda>hit. get hit ''id'')))) (\<lambda>c1.
     if truthy c1
     then bindE (get response ''artists'') (\<lambda>ar.
          bindE (get ar ''items'') (\<lambda>its.
          bindE (get0 its) (\<lambda>hit.
          bindE (get hit ''id'') (\<lambda>i.
          Inr (a\<lparr>ar_searchResponse := response, ar_id := i\<rparr>)))))
     else bindE (andand (Inr response) (\<lambda>_. get response ''id'')) (\<lambda>c2.
          if truthy c2
          then bindE (get response ''id'') (\<lambda>i.
               Inr (a\<lparr>artistResponse := response, ar_id := i\<rparr>))
          else bindE (andand (Inr response) (\<lambda>_. get response ''items'')) (\<lambda>c3.
               if truthy c3 then Inr (a\<lparr>albumsResponse := response\<rparr>) else Inr a)))"

definition fetchAlbums :: "'w spotify \<Rightarrow> artist \<Rightarrow> 'w world
    \<Rightarrow> (reason + sval) \<times> artist \<times> 'w world" where
  "fetchAlbums sp a w =
     (case request (getAlbumsByArtist_rq sp (ar_id a)) (GetAlbumsByArtist (ar_id a)) w of
        (Inr result, w1) \<Rightarrow> (Inr Self, a\<lparr>albumsResponse := result\<rparr>, w1)
      | (Inl e, w1) \<Rightarrow> (Inl e, a, w1))"

subsection \<open>Expansion of an artist into tracks\<close>

text \<open>
  Modelled from the spec: \<^verbatim>\<open>Queue.forEachPromise\<close> and \<^verbatim>\<open>Queue.dispatch\<close> (\<^verbatim>\<open>queue.js\<close>, not
  among the sources) run the operation on one element after the other, in order; a failure
  propagates and aborts the chain. \<^verbatim>\<open>forEachPromise\<close> resolves with the queue of the
  (updated) elements, \<^verbatim>\<open>dispatch\<close> with the queue of what each element's dispatch resolved
  with.
\<close>

fun Queue_forEachPromise :: "('a \<Rightarrow> 'w world \<Rightarrow> (reason + 'b) \<times> 'a \<times> 'w world)
    \<Rightarrow> 'a list \<Rightarrow> 'w world \<Rightarrow> (reason + 'a list) \<times> 'w world" where
  "Queue_forEachPromise f [] w = (Inr [], w)"
| "Queue_forEachPromise f (x # xs) w =
     (case f x w of
        (Inl e, x1, w1) \<Rightarrow> (Inl e, w1)
      | (Inr _, x1, w1) \<Rightarrow>
          (case Queue_forEachPromise f xs w1 of
             (Inl e, w2) \<Rightarrow> (Inl e, w2)
           | (Inr ys, w2) \<Rightarrow> (Inr (x1 # ys), w2)))"

fun Queue_dispatch :: "'w spotify \<Rightarrow> album list \<Rightarrow> 'w world
    \<Rightarrow> (reason + dispatched list) \<times> 'w world" where
  "Queue_dispatch sp [] w = (Inr [], w)"
| "Queue_dispatch sp (x # xs) w =
     (case Album_dispatch sp x w of
        (Inl e, x1, w1) \<Rightarrow> (Inl e, w1)
      | (Inr d, x1, w1) \<Rightarrow>
          (case Queue_dispatch sp xs w1 of
             (Inl e, w2) \<Rightarrow> (Inl e, w2)
           | (Inr ds, w2) \<Rightarrow> (Inr (d # ds), w2)))"

text \<open>
  Modelled from the spec: \<^verbatim>\<open>Queue.sort\<close> is a stable sort by the comparator it is given
  (negative: the first argument goes first).
\<close>

fun insert_by :: "('a \<Rightarrow> 'a \<Rightarrow> int) \<Rightarrow> 'a \<Rightarrow> 'a list \<Rightarrow> 'a list" where
  "insert_by cmp x [] = [x]"
| "insert_by cmp x (y # ys) = (if cmp x y \<le> 0 then x # y # ys else y # insert_by cmp x ys)"

definition Queue_sort :: "('a \<Rightarrow> 'a \<Rightarrow> int) \<Rightarrow> 'a list \<Rightarrow> 'a list" where
  "Queue_sort cmp xs = foldr (insert_by cmp) xs []"

text \<open>
  Modelled from the spec: \<^verbatim>\<open>Queue.flatten\<close> flattens one level, so the tracks of a nested
  queue become elements and any other element stays; \<^verbatim>\<open>Queue.filter\<close> keeps the elements
  the callback accepts, in order. The callback of \<^verbatim>\<open>Artist.createQueue\<close> calls
  \<^verbatim>\<open>track.hasArtist\<close>, which only a Track has: on another element it throws.
\<close>

datatype elem = ETrack track | EVal sval

definition Queue_flatten :: "dispatched list \<Rightarrow> elem list" where
  "Queue_flatten ds =
     concat (map (\<lambda>d. case d of DQueue q \<Rightarrow> map ETrack q | DVal v \<Rightarrow> [EVal v]) ds)"

fun filter_hasArtist :: "(track \<Rightarrow> bool) \<Rightarrow> elem list \<Rightarrow> reason + track list" where
  "filter_hasArtist p [] = Inr []"
| "filter_hasArtist p (ETrack t # es) =
     bindE (filter_hasArtist p es) (\<lambda>ts. Inr (if p t then t # ts else ts))"
| "filter_hasArtist p (EVal v # es) = Inl TypeError"

text \<open>
  \<^verbatim>\<open>sort.js\<close> and \<^verbatim>\<open>track.js\<close> are not among the sources: the comparator \<^verbatim>\<open>sort.album\<close> and the
  predicate \<^verbatim>\<open>track.hasArtist(artist)\<close> are parameters.
\<close>

record lib =
  sort_album :: "album \<Rightarrow> album \<Rightarrow> int"
  Track_hasArtist :: "track \<Rightarrow> string \<Rightarrow> bool"

definition Artist_createQueue :: "lib \<Rightarrow> 'w spotify \<Rightarrow> artist \<Rightarrow> 'w world
    \<Rightarrow> (reason + track list) \<times> 'w world" where
  "Artist_createQueue lb sp a w =
     (case bindE (get (albumsResponse a) ''items'') (\<lambda>its.
           js_map its (\<lambda>item.
             Album_setResponse (new_Album (ar_entry a) Undefined Undefined) item)) of
        Inl e \<Rightarrow> (Inl e, w)
      | Inr albums \<Rightarrow>
          (case Queue_forEachPromise (fetchAlbum sp) albums w of
             (Inl e, w1) \<Rightarrow> (Inl e, w1)
           | (Inr albumQueue, w1) \<Rightarrow>
               (case Queue_dispatch sp (Queue_sort (sort_album lb) albumQueue) w1 of
                  (Inl e, w2) \<Rightarrow> (Inl e, w2)
                | (Inr queue, w2) \<Rightarrow>
                    (filter_hasArtist (\<lambda>t. Track_hasArtist lb t (ar_entry a))
                       (Queue_flatten queue), w2))))"

definition Artist_dispatch :: "lib \<Rightarrow> 'w spotify \<Rightarrow> artist \<Rightarrow> 'w world
    \<Rightarrow> (reason + track list) \<times> artist \<times> 'w world" where
  "Artist_dispatch lb sp a w =
     (case searchForArtist sp a w of
        (Inl e, a1, w1) \<Rightarrow> (Inl e, a1, w1)
      | (Inr _, a1, w1) \<Rightarrow>
          (case fetchAlbums sp a1 w1 of
             (Inl e, a2, w2) \<Rightarrow> (Inl e, a2, w2)
           | (Inr _, a2, w2) \<Rightarrow>
               (case Artist_createQueue lb sp a2 w2 of (r, w3) \<Rightarrow> (r, a2, w3))))"

section \<open>The web scraper\<close>

subsection \<open>Capabilities the scraper consumes\<close>

text \<open>
  The document fetcher (\<^verbatim>\<open>http.js\<close>), the URI library, the \<^verbatim>\<open>URL\<close> and \<^verbatim>\<open>parseInt\<close>
  built-ins, the jQuery document query and the helpers of \<^verbatim>\<open>util.js\<close> are capabilities the
  scraper is given. A value of type \<open>'d\<close> is a jQuery collection.
  \<^item> \<open>http_get\<close>: the document text of a URI, or the reason of the rejection;
  \<^item> \<open>uri_domain\<close>: \<^verbatim>\<open>URI(uri).domain()\<close>, or the error \<^verbatim>\<open>URI(uri)\<close> throws when it does not
    accept the string (an invalid port, for one);
  \<^item> \<open>uri_absoluteTo v base\<close>: \<^verbatim>\<open>URI(v).absoluteTo(base).toString()\<close>, which throws when \<open>v\<close> is
    no URI;
  \<^item> \<open>url_params\<close>: the name-value pairs of \<^verbatim>\<open>new URLSearchParams(new URL(u).search)\<close>, \<open>None\<close> when
    the \<^verbatim>\<open>URL\<close> constructor throws;
  \<^item> \<open>url_with_search u ps\<close>: \<^verbatim>\<open>new URL(u)\<close> with its \<^verbatim>\<open>search\<close> set to the pairs \<open>ps\<close>, as a
    string, \<open>None\<close> when the constructor throws;
  \<^item> \<open>js_parseInt\<close>: \<^verbatim>\<open>parseInt\<close> of a string, \<open>None\<close> for \<^verbatim>\<open>NaN\<close>;
  \<^item> \<open>js_big_str\<close>: the string of a number beyond the safe integers, where JavaScript writes
    the shortest digits that identify the number and, from \<^verbatim>\<open>1e21\<close>, an exponent;
  \<^item> \<open>parseHTML\<close>: \<^verbatim>\<open>$($.parseHTML(data))\<close>; \<open>jq_find\<close>: \<^verbatim>\<open>.find(selector)\<close>; \<open>jq_each\<close>: the
    elements \<^verbatim>\<open>.each\<close> visits, in document order, each as \<^verbatim>\<open>$(this)\<close>; \<open>jq_text\<close>: \<^verbatim>\<open>.text()\<close>;
    \<open>jq_attr\<close>: \<^verbatim>\<open>.attr(name)\<close>, \<^verbatim>\<open>undefined\<close> when there is none; \<open>jq_next\<close>: \<^verbatim>\<open>.next()\<close>;
  \<^item> \<open>util_normalize\<close>, \<open>util_stripNoise\<close>: the helpers of \<^verbatim>\<open>util.js\<close>, taken to return a string
    for every argument.
\<close>

record 'd web =
  http_get :: "string \<Rightarrow> reason + string"
  uri_domain :: "string \<Rightarrow> reason + string"
  uri_absoluteTo :: "jsval \<Rightarrow> string \<Rightarrow> reason + string"
  url_params :: "string \<Rightarrow> (string \<times> string) list option"
  url_with_search :: "string \<Rightarrow> (string \<times> string) list \<Rightarrow> string option"
  js_parseInt :: "string \<Rightarrow> int option"
  js_big_str :: "int \<Rightarrow> string"
  parseHTML :: "string \<Rightarrow> 'd"
  jq_find :: "'d \<Rightarrow> string \<Rightarrow> 'd"
  jq_each :: "'d \<Rightarrow> 'd list"
  jq_text :: "'d \<Rightarrow> string"
  jq_attr :: "'d \<Rightarrow> string \<Rightarrow> jsval"
  jq_next :: "'d \<Rightarrow> 'd"
  util_normalize :: "jsval \<Rightarrow> string"
  util_stripNoise :: "jsval \<Rightarrow> string"

text \<open>
  A page the crawler has requested: the absolute URI, and the follow-up URIs the page pushed
  onto the work queue (none in a strategy without a work queue).
\<close>

record visit =
  v_uri :: string
  v_pushed :: "string list"

text \<open>
  What a scraping function gives: \<open>None\<close> when the fuel of the model runs out; else the
  buffer the promise resolves with, or the reason it is rejected with or the function
  throws, and the pages requested.
\<close>

type_synonym crawl = "((reason + string) \<times> visit list) option"

subsection \<open>Strings, numbers and query parameters\<close>

definition tab_dash_tab :: string where
  "tab_dash_tab = [CHR 0x09, CHR ''-'', CHR 0x09]"

definition newline :: string where
  "newline = [CHR 0x0A]"

definition lower :: "char \<Rightarrow> char" where
  "lower c = (if 65 \<le> (of_char c :: nat) \<and> (of_char c :: nat) \<le> 90
              then char_of ((of_char c :: nat) + 32) else c)"

fun starts_ci :: "string \<Rightarrow> string \<Rightarrow> bool" where
  "starts_ci [] s = True"
| "starts_ci (p # ps) [] = False"
| "starts_ci (p # ps) (c # cs) = (lower c = lower p \<and> starts_ci ps cs)"

text \<open>\<^verbatim>\<open>s.match(/p/gi)\<close> for a pattern \<open>p\<close> of literal characters: \<open>p\<close> occurs in \<open>s\<close>, in any case.\<close>

fun contains_ci :: "string \<Rightarrow> string \<Rightarrow> bool" where
  "contains_ci p [] = (p = [])"
| "contains_ci p (c # cs) = (starts_ci p (c # cs) \<or> contains_ci p cs)"

text \<open>\<^verbatim>\<open>s.replace(p, r)\<close> for a string \<open>p\<close>: the first occurrence only, case-sensitive.\<close>

fun replace_first :: "string \<Rightarrow> string \<Rightarrow> string \<Rightarrow> string" where
  "replace_first p r [] = (if p = [] then r else [])"
| "replace_first p r (c # cs) =
     (if prefix p (c # cs) then r @ drop (length p) (c # cs) else c # replace_first p r cs)"

fun dec :: "nat \<Rightarrow> string" where
  "dec n = (if n < 10 then [char_of (48 + n)] else dec (n div 10) @ [char_of (48 + n mod 10)])"

declare dec.simps [simp del]

text \<open>
  A number (\<open>None\<close> is \<^verbatim>\<open>NaN\<close>) converted to a string: plain decimal for a safe integer (at
  most \<open>2\<^sup>5\<^sup>3\<close> in absolute value), and what the engine writes beyond.
\<close>

definition num_str :: "'d web \<Rightarrow> int option \<Rightarrow> string" where
  "num_str env v = (case v of None \<Rightarrow> ''NaN''
     | Some n \<Rightarrow>
         if 9007199254740992 < \<bar>n\<bar> then js_big_str env n
         else if n < 0 then ''-'' @ dec (nat (- n)) else dec (nat n))"

text \<open>\<^verbatim>\<open>count || d\<close> for a count that is a number or \<^verbatim>\<open>undefined\<close> (\<open>None\<close>).\<close>

definition count_or :: "int option \<Rightarrow> int \<Rightarrow> int" where
  "count_or count d = (case count of None \<Rightarrow> d | Some n \<Rightarrow> if n = 0 then d else n)"

text \<open>\<^verbatim>\<open>parseInt(urlParams.get(k))\<close>: \<^verbatim>\<open>NaN\<close> when the parameter is absent.\<close>

definition nb_param :: "'d web \<Rightarrow> (string \<times> string) list \<Rightarrow> string \<Rightarrow> int option" where
  "nb_param env ps k = (case map_of ps k of None \<Rightarrow> None | Some v \<Rightarrow> js_parseInt env v)"

text \<open>\<^verbatim>\<open>URLSearchParams.set\<close> and \<^verbatim>\<open>URLSearchParams.delete\<close>.\<close>

fun params_set :: "string \<Rightarrow> string \<Rightarrow> (string \<times> string) list \<Rightarrow> (string \<times> string) list" where
  "params_set k v [] = [(k, v)]"
| "params_set k v (p # ps) =
     (if fst p = k then (k, v) # filter (\<lambda>q. fst q \<noteq> k) ps else p # params_set k v ps)"

definition params_delete :: "string \<Rightarrow> (string \<times> string) list \<Rightarrow> (string \<times> string) list" where
  "params_delete k ps = filter (\<lambda>q. fst q \<noteq> k) ps"

text \<open>
  An \<^verbatim>\<open>.each\<close> loop that counts the elements it has handled in \<open>i\<close> and leaves with
  \<^verbatim>\<open>return false\<close> when \<^verbatim>\<open>i === nb\<close>: it handles the first \<open>nb\<close> elements, and all of them when
  \<open>nb\<close> is \<^verbatim>\<open>NaN\<close> or negative.
\<close>

definition capped :: "int option \<Rightarrow> 'a list \<Rightarrow> 'a list" where
  "capped nb xs = (case nb of None \<Rightarrow> xs | Some n \<Rightarrow> if 0 \<le> n then take (nat n) xs else xs)"

text \<open>\<^verbatim>\<open>c.first().text()\<close>: the text of the first element, empty when there is none.\<close>

definition first_text :: "'d web \<Rightarrow> 'd \<Rightarrow> string" where
  "first_text env c = (case jq_each env c of [] \<Rightarrow> [] | x # _ \<Rightarrow> jq_text env x)"

subsection \<open>Last.fm: a work queue of follow-up URIs\<close>

text \<open>
  The body of the \<^verbatim>\<open>.then\<close> callback up to \<^verbatim>\<open>result += lines\<close>: the lines of the page and the
  URIs it pushes onto \<^verbatim>\<open>nextUrls\<close>, in order. The \<^verbatim>\<open>URL\<close> constructor may throw in the loop over
  the similar artists.
\<close>

definition lastfm_page :: "'d web \<Rightarrow> string \<Rightarrow> (string \<times> string) list \<Rightarrow> 'd
    \<Rightarrow> reason + (string \<times> string list)" where
  "lastfm_page env nextUri urlParams html =
     (let nbTracks = nb_param env urlParams ''nb_tracks'';
          nbSimilarTracks = nb_param env urlParams ''nb_similar_tracks'';
          nbSimilarArtists = nb_param env urlParams ''nb_similar_artists'';
          nbSimilarArtistsTracks = nb_param env urlParams ''nb_similar_artists_tracks''
      in
      if contains_ci ''/+tracks'' nextUri then
        (let header = jq_find env html ''h1.header-new-title'';
             artist = util_normalize env (JStr (first_text env header));
             rows = capped nbTracks (jq_each env (jq_find env html ''td.chartlist-name''))
         in Inr
           (concat (map (\<lambda>el.
              artist @ tab_dash_tab @ util_normalize env (JStr (jq_text env el)) @ newline) rows),
            map (\<lambda>el.
              ''https://www.last.fm''
                @ util_normalize env (jq_attr env (jq_find env el ''a'') ''href'')
                @ (case nbSimilarTracks of
                     Some n \<Rightarrow> ''?nb_similar_tracks='' @ num_str env (Some n)
                   | None \<Rightarrow> [])) rows
            @ (case nbSimilarArtists of
                 Some n \<Rightarrow> [replace_first ''+tracks'' ''+similar'' nextUri]
               | None \<Rightarrow> [])))
      else if contains_ci ''/+similar'' nextUri then
        bindE
          (mapE (\<lambda>el.
             case url_with_search env
                    (''https://www.last.fm''
                       @ util_normalize env (jq_attr env (jq_find env el ''a'') ''href'')
                       @ ''/+tracks'')
                    (params_delete ''nb_similar_artists_tracks''
                      (params_delete ''nb_similar_artists''
                        (params_set ''nb_tracks'' (num_str env nbSimilarArtistsTracks) urlParams)))
             of None \<Rightarrow> Inl TypeError | Some u \<Rightarrow> Inr u)
             (capped nbSimilarArtists
               (jq_each env (jq_find env html ''h3.similar-artists-item-name''))))
          (\<lambda>pushed. Inr ([], pushed))
      else if contains_ci ''/artists'' nextUri then
        Inr (concat (map (\<lambda>el. ''#top '' @ util_normalize env (JStr (jq_text env el)) @ newline)
               (jq_each env (jq_find env html ''td.chartlist-name''))), [])
      else if contains_ci ''/albums'' nextUri then
        Inr (concat (map (\<lambda>el. ''#album '' @ util_normalize env (JStr (jq_text env el)) @ newline)
               (jq_each env (jq_find env html ''td.chartlist-name''))), [])
      else
        Inr (concat (map (\<lambda>el.
               util_normalize env
                   (JStr (jq_text env (jq_find env el ''p.track-similar-tracks-item-artist'')))
                 @ tab_dash_tab
                 @ util_normalize env
                     (JStr (jq_text env (jq_find env el ''h3.track-similar-tracks-item-name'')))
                 @ newline)
               (capped nbSimilarTracks
                 (jq_each env (jq_find env html ''.track-similar-tracks-item'')))), []))"

text \<open>
  \<^verbatim>\<open>getPages(nextUri, result, count, urls)\<close>. The recursion need not end (a page may push
  itself), so the function takes fuel and is \<open>None\<close> when the fuel runs out. It returns what
  the promise settles with and the pages requested, in order.
\<close>

fun lastfm_getPages :: "nat \<Rightarrow> 'd web \<Rightarrow> string \<Rightarrow> string \<Rightarrow> string \<Rightarrow> int
    \<Rightarrow> string list option \<Rightarrow> crawl" where
  "lastfm_getPages 0 env uri nextUri result count urls = None"
| "lastfm_getPages (Suc fuel) env uri nextUri result count urls =
     (case uri_absoluteTo env (JStr nextUri) uri of
        Inl e \<Rightarrow> Some (Inl e, [])
      | Inr nextUri \<Rightarrow>
          (let nextUrls = (case urls of None \<Rightarrow> [] | Some us \<Rightarrow> us) in
           case url_params env nextUri of
             None \<Rightarrow> Some (Inl TypeError, [])
           | Some urlParams \<Rightarrow>
               (case http_get env nextUri of
                  Inl e \<Rightarrow> Some (Inl e, [\<lparr>v_uri = nextUri, v_pushed = []\<rparr>])
                | Inr data \<Rightarrow>
                    (case lastfm_page env nextUri urlParams (parseHTML env data) of
                       Inl e \<Rightarrow> Some (Inl e, [\<lparr>v_uri = nextUri, v_pushed = []\<rparr>])
                     | Inr (lines, pushed) \<Rightarrow>
                         (let result = result @ lines;
                              nextUrls = nextUrls @ pushed;
                              v = \<lparr>v_uri = nextUri, v_pushed = pushed\<rparr>
                          in
                          if count = 1 \<and> nextUrls = [] then Some (Inr result, [v])
                          else
                            case nextUrls of
                              u # us \<Rightarrow>
                                (case lastfm_getPages fuel env uri u result 1 (Some us) of
                                   None \<Rightarrow> None
                                 | Some (r, vs) \<Rightarrow> Some (r, v # vs))
                            | [] \<Rightarrow> Some (Inr result, [v]))))))"

definition lastfm :: "nat \<Rightarrow> 'd web \<Rightarrow> string \<Rightarrow> int option \<Rightarrow> crawl" where
  "lastfm fuel env uri count =
     lastfm_getPages fuel env uri uri (''#shuffle'' @ newline) (count_or count 1) None"





subsection \<open>Pitchfork, Rate Your Music, Reddit: a next-page link\<close>

text \<open>
  The three \<^verbatim>\<open>getPages\<close> closures of \<^verbatim>\<open>pitchfork\<close>, \<^verbatim>\<open>rateyourmusic\<close> and \<^verbatim>\<open>reddit\<close> have one
  body, up to the lines a page yields (\<open>extract\<close>), the element that links to the next page
  (\<open>next\<close>) and where its \<^verbatim>\<open>href\<close> is read (\<open>link\<close>).
\<close>

fun linear_getPages :: "nat \<Rightarrow> 'd web \<Rightarrow> ('d \<Rightarrow> string) \<Rightarrow> ('d \<Rightarrow> 'd) \<Rightarrow> ('d \<Rightarrow> jsval)
    \<Rightarrow> string \<Rightarrow> jsval \<Rightarrow> string \<Rightarrow> int \<Rightarrow> crawl" where
  "linear_getPages 0 env extract next link uri nextUri result count = None"
| "linear_getPages (Suc fuel) env extract next link uri nextUri result count =
     (case uri_absoluteTo env nextUri uri of
        Inl e \<Rightarrow> Some (Inl e, [])
      | Inr nextUri \<Rightarrow>
          (case http_get env nextUri of
             Inl e \<Rightarrow> Some (Inl e, [\<lparr>v_uri = nextUri, v_pushed = []\<rparr>])
           | Inr data \<Rightarrow>
               (let html = parseHTML env data;
                    result = result @ extract html;
                    v = \<lparr>v_uri = nextUri, v_pushed = []\<rparr>
                in
                if count = 1 then Some (Inr result, [v])
                else if jq_each env (next html) \<noteq> [] then
                  (case linear_getPages fuel env extract next link uri (link (next html))
                          result (count - 1) of
                     None \<Rightarrow> None
                   | Some (r, vs) \<Rightarrow> Some (r, v # vs))
                else Some (Inr result, [v]))))"

definition pitchfork_lines :: "'d web \<Rightarrow> 'd \<Rightarrow> string" where
  \<open>pitchfork_lines env html =
     concat (map (\<lambda>el.
       ''#album ''
         @ util_normalize env
             (JStr (jq_text env (jq_find env el ''ul[class*="artist-list"] li:first'')))
         @ tab_dash_tab
         @ util_normalize env (JStr (jq_text env (jq_find env el ''h2[class*="work-title"]'')))
         @ newline)
       (jq_each env (jq_find env html ''div[class*="artist-work"]'')))\<close>

definition pitchfork_next :: "'d web \<Rightarrow> 'd \<Rightarrow> 'd" where
  "pitchfork_next env html = jq_next env (jq_find env html ''.fts-pagination__list-item--active'')"

definition pitchfork :: "nat \<Rightarrow> 'd web \<Rightarrow> string \<Rightarrow> int option \<Rightarrow> crawl" where
  "pitchfork fuel env uri count =
     linear_getPages fuel env (pitchfork_lines env) (pitchfork_next env)
       (\<lambda>nextPage. jq_attr env (jq_find env nextPage ''a'') ''href'')
       uri (JStr uri) [] (count_or count 0)"

definition rateyourmusic_lines :: "'d web \<Rightarrow> 'd \<Rightarrow> string" where
  "rateyourmusic_lines env html =
     concat (map (\<lambda>el.
       ''#album ''
         @ util_normalize env (JStr (jq_text env (jq_find env el ''a.artist'')))
         @ tab_dash_tab
         @ util_normalize env (JStr (jq_text env (jq_find env el ''a.album'')))
         @ newline)
       (jq_each env (jq_find env html ''div.chart_details'')))"

definition rateyourmusic_next :: "'d web \<Rightarrow> 'd \<Rightarrow> 'd" where
  "rateyourmusic_next env html = jq_find env html ''a.navlinknext''"

definition rateyourmusic :: "nat \<Rightarrow> 'd web \<Rightarrow> string \<Rightarrow> int option \<Rightarrow> crawl" where
  "rateyourmusic fuel env uri count =
     linear_getPages fuel env (rateyourmusic_lines env) (rateyourmusic_next env)
       (\<lambda>next. jq_attr env next ''href'')
       uri (JStr uri) [] (count_or count 0)"

text \<open>
  In a comments thread the callback of \<^verbatim>\<open>.each\<close> declares a \<^verbatim>\<open>var lines\<close> of its own, which
  is hoisted over its whole body: every \<^verbatim>\<open>lines += ...\<close> of the callback, and of the callback
  nested in it, writes that variable, and the \<^verbatim>\<open>lines\<close> added to the result stays empty.
\<close>

definition reddit_lines :: "'d web \<Rightarrow> string \<Rightarrow> 'd \<Rightarrow> string" where
  "reddit_lines env uri html =
     (if contains_ci ''/comments/'' uri then []
      else concat (map (\<lambda>el. util_stripNoise env (JStr (jq_text env el)) @ newline)
             (jq_each env (jq_find env html ''a.title''))))"

definition reddit_next :: "'d web \<Rightarrow> 'd \<Rightarrow> 'd" where
  "reddit_next env html = jq_find env html ''.next-button a''"

definition reddit :: "nat \<Rightarrow> 'd web \<Rightarrow> string \<Rightarrow> int option \<Rightarrow> crawl" where
  "reddit fuel env uri count =
     linear_getPages fuel env (reddit_lines env uri) (reddit_next env)
       (\<lambda>next. jq_attr env next ''href'')
       uri (JStr uri) [] (count_or count 1)"

text \<open>The page at a URI can be fetched and has an element that links to a next page.\<close>

definition has_next :: "'d web \<Rightarrow> ('d \<Rightarrow> 'd) \<Rightarrow> string \<Rightarrow> bool" where
  "has_next env next u =
     (case http_get env u of
        Inr data \<Rightarrow> jq_each env (next (parseHTML env data)) \<noteq> []
      | Inl e \<Rightarrow> False)"

text \<open>The URIs a crawl has requested, in order.\<close>

definition requested :: "crawl \<Rightarrow> string list option" where
  "requested c = map_option (\<lambda>r. map v_uri (snd r)) c"

subsection \<open>Single pages\<close>

definition webpage :: "'d web \<Rightarrow> string \<Rightarrow> (reason + string) \<times> visit list" where
  "webpage env uri =
     (case http_get env uri of
        Inl e \<Rightarrow> (Inl e, [\<lparr>v_uri = uri, v_pushed = []\<rparr>])
      | Inr data \<Rightarrow>
          (Inr (trim (concat (map (\<lambda>el.
                  let track = util_stripNoise env (JStr (jq_text env el))
                  in if track \<noteq> [] then track @ newline else [])
                (jq_each env (jq_find env (parseHTML env data) ''a''))))),
           [\<lparr>v_uri = uri, v_pushed = []\<rparr>]))"

definition youtube :: "'d web \<Rightarrow> string \<Rightarrow> (reason + string) \<times> visit list" where
  "youtube env uri =
     (case http_get env uri of
        Inl e \<Rightarrow> (Inl e, [\<lparr>v_uri = uri, v_pushed = []\<rparr>])
      | Inr data \<Rightarrow>
          (Inr (trim (concat (map (\<lambda>el. util_stripNoise env (JStr (jq_text env el)) @ newline)
                (jq_each env (jq_find env (parseHTML env data)
                   ''div.playlist-video-description h4, a.pl-video-title-link''))))),
           [\<lparr>v_uri = uri, v_pushed = []\<rparr>]))"

subsection \<open>Choice of the strategy\<close>

text \<open>
  \<^verbatim>\<open>URI(uri).domain()\<close> is evaluated first, outside any promise and with no handler around
  it: when it throws, \<^verbatim>\<open>scrape\<close> throws and no strategy is run.
\<close>

definition scrape :: "nat \<Rightarrow> 'd web \<Rightarrow> string \<Rightarrow> int option \<Rightarrow> crawl" where
  "scrape fuel env uri count =
     (case uri_domain env uri of
        Inl e \<Rightarrow> Some (Inl e, [])
      | Inr domain \<Rightarrow>
          if domain = ''last.fm'' then lastfm fuel env uri count
          else if domain = ''pitchfork.com'' then pitchfork fuel env uri count
          else if domain = ''rateyourmusic.com'' then rateyourmusic fuel env uri count
          else if domain = ''reddit.com'' then reddit fuel env uri count
          else if domain = ''youtube.com'' then Some (youtube env uri)
          else Some (webpage env uri))"

text \<open>
  The registry as the specification words it: a fixed table of known hosts, each with its
  strategy, and the generic strategy when no host matches.
\<close>

datatype strategy = Lastfm | Pitchfork | Rateyourmusic | Reddit | Youtube | Generic

definition known_hosts :: "(string \<times> strategy) list" where
  "known_hosts =
     [(''last.fm'', Lastfm), (''pitchfork.com'', Pitchfork), (''rateyourmusic.com'', Rateyourmusic),
      (''reddit.com'', Reddit), (''youtube.com'', Youtube)]"

definition selectStrategy :: "string \<Rightarrow> strategy" where
  "selectStrategy host = (case map_of known_hosts host of Some s \<Rightarrow> s | None \<Rightarrow> Generic)"

fun run_strategy :: "strategy \<Rightarrow> nat \<Rightarrow> 'd web \<Rightarrow> string \<Rightarrow> int option \<Rightarrow> crawl" where
  "run_strategy Lastfm fuel env uri count = lastfm fuel env uri count"
| "run_strategy Pitchfork fuel env uri count = pitchfork fuel env uri count"
| "run_strategy Rateyourmusic fuel env uri count = rateyourmusic fuel env uri count"
| "run_strategy Reddit fuel env uri count = reddit fuel env uri count"
| "run_strategy Youtube fuel env uri count = Some (youtube env uri)"
| "run_strategy Generic fuel env uri count = Some (webpage env uri)"

section \<open>Repeated resolution\<close>

text \<open>The three guards of \<^verbatim>\<open>searchForAlbum\<close> and \<^verbatim>\<open>searchForArtist\<close> that skip the search.\<close>

definition album_cached :: "album \<Rightarrow> bool" where
  "album_cached a \<longleftrightarrow>
     truthy (al_searchResponse a) \<or> truthy (albumResponse a) \<or> truthy (al_id a)"

definition artist_cached :: "artist \<Rightarrow> bool" where
  "artist_cached a \<longleftrightarrow>
     truthy (ar_searchResponse a) \<or> truthy (artistResponse a) \<or> truthy (ar_id a)"

text \<open>
  The identifier shape as the specification words it: the reference is alphanumeric, from
  its first character to its last.
\<close>

definition spec_id_shape :: "string \<Rightarrow> bool" where
  "spec_id_shape s \<longleftrightarrow> s \<noteq> [] \<and> list_all is_alnum s"

text \<open>Two calls of an operation on the same entry, the second on what the first left.\<close>

definition twice :: "('a \<Rightarrow> 's \<Rightarrow> 'r \<times> 'a \<times> 's) \<Rightarrow> 'a \<Rightarrow> 's \<Rightarrow> ('r \<times> 'a \<times> 's) \<times> ('r \<times> 'a \<times> 's)" where
  "twice f a w = (let x = f a w in (x, f (fst (snd x)) (snd (snd x))))"

section \<open>Concrete catalog clients\<close>

text \<open>A catalog that is down: every request is rejected.\<close>

definition offline :: "unit spotify" where
  "offline =
     \<lparr>searchForAlbum_rq = (\<lambda>e s. (Inl (Reason (JStr ''ECONNREFUSED'')), s)),
      searchForArtist_rq = (\<lambda>e s. (Inl (Reason (JStr ''ECONNREFUSED'')), s)),
      getAlbum_rq = (\<lambda>i s. (Inl (Reason (JStr ''ECONNREFUSED'')), s)),
      getAlbumsByArtist_rq = (\<lambda>i s. (Inl (Reason (JStr ''ECONNREFUSED'')), s))\<rparr>"

definition world0 :: "unit world" where
  "world0 = \<lparr>remote = (), calls = [], console = []\<rparr>"

text \<open>
  A small catalog: one artist with one album of three tracks, the second of which credits
  another artist only.
\<close>

definition kid_a_tracks :: "jsval list" where
  "kid_a_tracks =
     [JObj [(''name'', JStr ''Everything in Its Right Place''),
            (''artists'', JArr [JObj [(''name'', JStr ''Radiohead'')]])],
      JObj [(''name'', JStr ''Treefingers (remix)''),
            (''artists'', JArr [JObj [(''name'', JStr ''Four Tet'')]])],
      JObj [(''name'', JStr ''Idioteque''),
            (''artists'', JArr [JObj [(''name'', JStr ''Radiohead'')]])]]"

definition kid_a :: jsval where
  "kid_a = JObj [(''id'', JStr ''6GjwtEZcfenmOf6l18N7T7''), (''name'', JStr ''Kid A''),
                 (''tracks'', JObj [(''items'', JArr kid_a_tracks)])]"

definition catalog :: "unit spotify" where
  "catalog =
     \<lparr>searchForAlbum_rq = (\<lambda>e s. (Inr (JObj [(''albums'', JObj [(''items'',
          JArr [JObj [(''id'', JStr ''6GjwtEZcfenmOf6l18N7T7''), (''name'', JStr ''Kid A'')]])])]), s)),
      searchForArtist_rq = (\<lambda>e s. (Inr (JObj [(''artists'', JObj [(''items'',
          JArr [JObj [(''id'', JStr ''4Z8W4fKeB5YxbusRsdQVPb''), (''name'', JStr ''Radiohead'')]])])]), s)),
      getAlbum_rq = (\<lambda>i s. (Inr kid_a, s)),
      getAlbumsByArtist_rq = (\<lambda>i s. (Inr (JObj [(''items'',
          JArr [JObj [(''id'', JStr ''6GjwtEZcfenmOf6l18N7T7''), (''name'', JStr ''Kid A'')]])]), s))\<rparr>"

text \<open>
  A comparator that keeps the order of the albums, and a predicate that looks the artist up
  among the names a track's metadata credits.
\<close>

definition credits :: "track \<Rightarrow> string \<Rightarrow> bool" where
  "credits t e =
     (case get (tr_response t) ''artists'' of
        Inr (JArr as) \<Rightarrow> JObj [(''name'', JStr e)] \<in> set as
      | _ \<Rightarrow> False)"

definition lib0 :: lib where
  "lib0 = \<lparr>sort_album = (\<lambda>x y. 0), Track_hasArtist = credits\<rparr>"

section \<open>A test double for the web\<close>

text \<open>
  Documents are trees of nodes. A node answers to one selector (its label) and carries its
  text, its \<^verbatim>\<open>href\<close>, its children and the sibling that follows it. A site maps each URI to
  its document; the text of a document is its URI, and every link is absolute.
\<close>

datatype node =
  Node (n_label: string) (n_text: string) (n_href: jsval) (n_kids: "node list")
    (n_sibling: "node list")

fun below :: "node \<Rightarrow> node list" where
  "below (Node l t h ks sb) = concat (map (\<lambda>k. k # below k) ks)"

definition plain :: "jsval \<Rightarrow> string" where
  "plain v = (case v of JStr s \<Rightarrow> s | _ \<Rightarrow> [])"

text \<open>
  The URI library of the test double: the authority is what stands between \<^verbatim>\<open>://\<close> and the
  next slash, a port that is not a number is refused with a \<^verbatim>\<open>TypeError\<close>, and the domain is
  the last two labels of the host.
\<close>

fun split_on :: "char \<Rightarrow> string \<Rightarrow> string list" where
  "split_on d [] = [[]]"
| "split_on d (c # cs) =
     (if c = d then [] # split_on d cs
      else case split_on d cs of [] \<Rightarrow> [[c]] | w # ws \<Rightarrow> (c # w) # ws)"

fun after_scheme :: "string \<Rightarrow> string" where
  "after_scheme [] = []"
| "after_scheme (c # cs) = (if prefix ''://'' (c # cs) then drop 3 (c # cs) else after_scheme cs)"

definition is_digit :: "char \<Rightarrow> bool" where
  "is_digit c = (48 \<le> (of_char c :: nat) \<and> (of_char c :: nat) \<le> 57)"

definition toy_domain :: "string \<Rightarrow> reason + string" where
  "toy_domain u =
     (let authority = takeWhile (\<lambda>c. c \<noteq> CHR ''/'') (after_scheme u);
          host = takeWhile (\<lambda>c. c \<noteq> CHR '':'') authority;
          port = drop 1 (dropWhile (\<lambda>c. c \<noteq> CHR '':'') authority);
          labels = split_on (CHR ''.'') host
      in if \<not> list_all is_digit port then Inl TypeError
         else if length labels < 2 then Inr host
         else Inr (last (butlast labels) @ ''.'' @ last labels))"

definition toy :: "(string \<times> node) list \<Rightarrow> node list web" where
  "toy site =
     \<lparr>http_get = (\<lambda>u. case map_of site u of
                        Some n \<Rightarrow> Inr u
                      | None \<Rightarrow> Inl (Reason (JStr ''404''))),
      uri_domain = toy_domain,
      uri_absoluteTo = (\<lambda>v base. case v of JStr s \<Rightarrow> Inr s | _ \<Rightarrow> Inl TypeError),
      url_params = (\<lambda>u. Some []),
      url_with_search = (\<lambda>u ps. Some u),
      js_parseInt = (\<lambda>s. None),
      js_big_str = (\<lambda>n. ''Infinity''),
      parseHTML = (\<lambda>data. case map_of site data of Some n \<Rightarrow> [n] | None \<Rightarrow> []),
      jq_find = (\<lambda>d sel. filter (\<lambda>n. n_label n = sel) (concat (map below d))),
      jq_each = map (\<lambda>n. [n]),
      jq_text = (\<lambda>d. concat (map n_text d)),
      jq_attr = (\<lambda>d a. case d of [] \<Rightarrow> Undefined
                       | n # _ \<Rightarrow> if a = ''href'' then n_href n else Undefined),
      jq_next = (\<lambda>d. concat (map n_sibling d)),
      util_normalize = plain,
      util_stripNoise = plain\<rparr>"

text \<open>
  A Last.fm page of an artist's tracks with two rows, each linking to the page of the
  track, which lists one similar track.
\<close>

definition similar_page :: "string \<Rightarrow> string \<Rightarrow> node" where
  "similar_page artist title =
     Node ''html'' [] Undefined
       [Node ''.track-similar-tracks-item'' [] Undefined
          [Node ''p.track-similar-tracks-item-artist'' artist Undefined [] [],
           Node ''h3.track-similar-tracks-item-name'' title Undefined [] []] []] []"

definition lastfm_site :: "(string \<times> node) list" where
  "lastfm_site =
     [(''https://www.last.fm/music/Radiohead/+tracks'',
       Node ''html'' [] Undefined
         [Node ''h1.header-new-title'' ''Radiohead'' Undefined [] [],
          Node ''td.chartlist-name'' ''Creep'' Undefined
            [Node ''a'' ''Creep'' (JStr ''/music/Radiohead/_/Creep'') [] []] [],
          Node ''td.chartlist-name'' ''Karma Police'' Undefined
            [Node ''a'' ''Karma Police'' (JStr ''/music/Radiohead/_/Karma+Police'') [] []] []] []),
      (''https://www.last.fm/music/Radiohead/_/Creep'',
       similar_page ''Pixies'' ''Where Is My Mind?''),
      (''https://www.last.fm/music/Radiohead/_/Karma+Police'',
       similar_page ''Blur'' ''Beetlebum'')]"

text \<open>The buffer the crawl of that page returns, and the pages it requests.\<close>

definition lastfm_buffer :: string where
  "lastfm_buffer =
     ''#shuffle'' @ newline
       @ ''Radiohead'' @ tab_dash_tab @ ''Creep'' @ newline
       @ ''Radiohead'' @ tab_dash_tab @ ''Karma Police'' @ newline
       @ ''Pixies'' @ tab_dash_tab @ ''Where Is My Mind?'' @ newline
       @ ''Blur'' @ tab_dash_tab @ ''Beetlebum'' @ newline"

definition lastfm_visits :: "visit list" where
  "lastfm_visits =
     [\<lparr>v_uri = ''https://www.last.fm/music/Radiohead/+tracks'',
       v_pushed = [''https://www.last.fm/music/Radiohead/_/Creep'',
                   ''https://www.last.fm/music/Radiohead/_/Karma+Police'']\<rparr>,
      \<lparr>v_uri = ''https://www.last.fm/music/Radiohead/_/Creep'', v_pushed = []\<rparr>,
      \<lparr>v_uri = ''https://www.last.fm/music/Radiohead/_/Karma+Police'', v_pushed = []\<rparr>]"










text \<open>
  Charts of four pages: each of the first three has one entry and a link to the page after
  it, the fourth has an entry and no link.
\<close>

definition rym_page :: "string \<Rightarrow> string \<Rightarrow> string list \<Rightarrow> node" where
  "rym_page artist album next =
     Node ''html'' [] Undefined
       (Node ''div.chart_details'' [] Undefined
          [Node ''a.artist'' artist Undefined [] [],
           Node ''a.album'' album Undefined [] []] []
        # map (\<lambda>u. Node ''a.navlinknext'' ''next'' (JStr u) [] []) next) []"

definition pitchfork_page :: "string \<Rightarrow> string \<Rightarrow> string list \<Rightarrow> node" where
  \<open>pitchfork_page artist album next =
     Node ''html'' [] Undefined
       [Node ''div[class*="artist-work"]'' [] Undefined
          [Node ''ul[class*="artist-list"] li:first'' artist Undefined [] [],
           Node ''h2[class*="work-title"]'' album Undefined [] []] [],
        Node ''.fts-pagination__list-item--active'' ''.'' Undefined []
          (map (\<lambda>u. Node ''li'' [] Undefined [Node ''a'' ''.'' (JStr u) [] []] []) next)] []\<close>

definition reddit_page :: "string \<Rightarrow> string list \<Rightarrow> node" where
  "reddit_page title next =
     Node ''html'' [] Undefined
       (Node ''a.title'' title Undefined [] []
        # map (\<lambda>u. Node ''.next-button a'' ''next'' (JStr u) [] []) next) []"

definition chart_site :: "(string \<times> node) list" where
  "chart_site =
     [(''https://rateyourmusic.com/charts/1'',
       rym_page ''Radiohead'' ''OK Computer'' [''https://rateyourmusic.com/charts/2'']),
      (''https://rateyourmusic.com/charts/2'',
       rym_page ''Pink Floyd'' ''Wish You Were Here'' [''https://rateyourmusic.com/charts/3'']),
      (''https://rateyourmusic.com/charts/3'',
       rym_page ''King Crimson'' ''Red'' [''https://rateyourmusic.com/charts/4'']),
      (''https://rateyourmusic.com/charts/4'',
       rym_page ''Talk Talk'' ''Laughing Stock'' []),
      (''https://pitchfork.com/best/1'',
       pitchfork_page ''Radiohead'' ''Kid A'' [''https://pitchfork.com/best/2'']),
      (''https://pitchfork.com/best/2'',
       pitchfork_page ''Burial'' ''Untrue'' [''https://pitchfork.com/best/3'']),
      (''https://pitchfork.com/best/3'',
       pitchfork_page ''Low'' ''Double Negative'' [''https://pitchfork.com/best/4'']),
      (''https://pitchfork.com/best/4'',
       pitchfork_page ''Grouper'' ''Ruins'' []),
      (''https://www.reddit.com/r/music/1'',
       reddit_page ''Radiohead - Creep'' [''https://www.reddit.com/r/music/2'']),
      (''https://www.reddit.com/r/music/2'',
       reddit_page ''Blur - Song 2'' [''https://www.reddit.com/r/music/3'']),
      (''https://www.reddit.com/r/music/3'',
       reddit_page ''Pulp - Common People'' [''https://www.reddit.com/r/music/4'']),
      (''https://www.reddit.com/r/music/4'',
       reddit_page ''Suede - Trash'' [])]"

text \<open>A page of links on a host of its own, beside the first page of a Reddit listing.\<close>

definition links_site :: "(string \<times> node) list" where
  "links_site =
     [(''https://example.org/best-of-1997'',
       Node ''html'' [] Undefined
         [Node ''a'' ''Radiohead - Paranoid Android'' (JStr ''/1'') [] [],
          Node ''a'' [] (JStr ''/2'') [] [],
          Node ''a'' ''Blur - Beetlebum'' (JStr ''/3'') [] []] []),
      (''https://www.reddit.com/r/music/1'', reddit_page ''Radiohead - Creep'' [])]"

section \<open>Properties of the identifier pattern\<close>

lemma match_id_last: "match_id s \<longleftrightarrow> s \<noteq> [] \<and> is_alnum (last s)"
  by (induction s) (auto simp: list_all_iff)

section \<open>Search failure and the identifier fallback\<close>





lemma spec_id_shape_match: "spec_id_shape s \<Longrightarrow> match_id s"
  by (cases s) (auto simp: spec_id_shape_def)


section \<open>Repeated resolution issues at most one search once something is cached\<close>

lemma match_id_nonempty: "match_id s \<Longrightarrow> s \<noteq> []"
  by (cases s) auto

lemma album_cached_noop:
  "album_cached a \<Longrightarrow> \<exists>v. searchForAlbum sp a w = (Inr v, a, w)"
  by (auto simp: album_cached_def searchForAlbum_def)

lemma artist_cached_noop:
  "artist_cached a \<Longrightarrow> \<exists>v. searchForArtist sp a w = (Inr v, a, w)"
  by (auto simp: artist_cached_def searchForArtist_def)

lemma album_search_then_keeps:
  "album_search_then a v = (r, a1) \<Longrightarrow> al_searchResponse a1 = v"
  by (auto simp: album_search_then_def Let_def split: sum.splits if_splits)

lemma album_search_catch_keeps:
  "album_search_catch a w = (r, a1, w1) \<Longrightarrow>
     al_searchResponse a1 = al_searchResponse a \<and> calls w1 = calls w"
  by (auto simp: album_search_catch_def console_log_def split: if_splits)

lemma album_search_catch_match:
  "match_id (al_entry a) \<Longrightarrow> album_search_catch a w = (r, a1, w1) \<Longrightarrow>
     truthy (al_id a1) \<and> calls w1 = calls w"
  by (auto simp: album_search_catch_def match_id_nonempty)

lemma artist_search_then_keeps:
  "artist_search_then a v w = (r, a1, w1) \<Longrightarrow>
     ar_searchResponse a1 = v \<and> calls w1 = calls w"
  by (auto simp: artist_search_then_def console_log_def Let_def split: sum.splits if_splits)

lemma artist_search_catch_keeps:
  "artist_search_catch a w = (r, a1, w1) \<Longrightarrow>
     ar_searchResponse a1 = ar_searchResponse a \<and> calls w1 = calls w"
  by (auto simp: artist_search_catch_def split: if_splits)

lemma artist_search_catch_match:
  "match_id (ar_entry a) \<Longrightarrow> artist_search_catch a w = (r, a1, w1) \<Longrightarrow>
     truthy (ar_id a1) \<and> calls w1 = calls w"
  by (auto simp: artist_search_catch_def match_id_nonempty)

lemma album_search_calls:
  "searchForAlbum sp a w = (r, a1, w1) \<Longrightarrow> length (calls w1) \<le> length (calls w) + 1"
  by (auto simp: searchForAlbum_def request_def split: if_splits prod.splits sum.splits
      dest!: album_search_catch_keeps)

lemma artist_search_calls:
  "searchForArtist sp a w = (r, a1, w1) \<Longrightarrow> length (calls w1) \<le> length (calls w) + 1"
  by (auto simp: searchForArtist_def request_def split: if_splits prod.splits sum.splits
      dest!: artist_search_catch_keeps artist_search_then_keeps)

lemma album_search_caches:
  assumes "searchForAlbum sp a w = (r, a1, w1)"
    and "album_cached a
       \<or> (\<exists>v s. searchForAlbum_rq sp (al_entry a) (remote w) = (Inr v, s) \<and> truthy v)
       \<or> (\<exists>e s. searchForAlbum_rq sp (al_entry a) (remote w) = (Inl e, s) \<and>
            match_id (al_entry a))"
  shows "album_cached a1"
proof (cases "album_cached a")
  case True
  with assms(1) album_cached_noop [OF True, of sp w] show ?thesis by auto
next
  case False
  then have nc: "\<not> truthy (al_searchResponse a)" "\<not> truthy (albumResponse a)"
      "\<not> truthy (al_id a)"
    by (auto simp: album_cached_def)
  from assms(2) False consider
    (ok) v s where "searchForAlbum_rq sp (al_entry a) (remote w) = (Inr v, s)" "truthy v"
  | (fail) e s where "searchForAlbum_rq sp (al_entry a) (remote w) = (Inl e, s)"
      "match_id (al_entry a)"
    by blast
  then show ?thesis
  proof cases
    case ok
    with assms(1) nc show ?thesis
      by (auto simp: searchForAlbum_def request_def album_cached_def
          split: prod.splits sum.splits
          dest!: album_search_then_keeps album_search_catch_keeps)
  next
    case fail
    with assms(1) nc show ?thesis
      by (auto simp: searchForAlbum_def request_def album_cached_def
          dest!: album_search_catch_match)
  qed
qed

lemma artist_search_caches:
  assumes "searchForArtist sp a w = (r, a1, w1)"
    and "artist_cached a
       \<or> (\<exists>v s. searchForArtist_rq sp (ar_entry a) (remote w) = (Inr v, s) \<and> truthy v)
       \<or> (\<exists>e s. searchForArtist_rq sp (ar_entry a) (remote w) = (Inl e, s) \<and>
            match_id (ar_entry a))"
  shows "artist_cached a1"
proof (cases "artist_cached a")
  case True
  with assms(1) artist_cached_noop [OF True, of sp w] show ?thesis by auto
next
  case False
  then have nc: "\<not> truthy (ar_searchResponse a)" "\<not> truthy (artistResponse a)"
      "\<not> truthy (ar_id a)"
    by (auto simp: artist_cached_def)
  from assms(2) False consider
    (ok) v s where "searchForArtist_rq sp (ar_entry a) (remote w) = (Inr v, s)" "truthy v"
  | (fail) e s where "searchForArtist_rq sp (ar_entry a) (remote w) = (Inl e, s)"
      "match_id (ar_entry a)"
    by blast
  then show ?thesis
  proof cases
    case ok
    with assms(1) nc show ?thesis
      by (auto simp: searchForArtist_def request_def artist_cached_def
          split: prod.splits sum.splits
          dest!: artist_search_then_keeps artist_search_catch_keeps)
  next
    case fail
    with assms(1) nc show ?thesis
      by (auto simp: searchForArtist_def request_def artist_cached_def
          dest!: artist_search_catch_match)
  qed
qed

lemma album_twice:
  assumes "album_cached a
       \<or> (\<exists>v s. searchForAlbum_rq sp (al_entry a) (remote w) = (Inr v, s) \<and> truthy v)
       \<or> (\<exists>e s. searchForAlbum_rq sp (al_entry a) (remote w) = (Inl e, s) \<and>
            match_id (al_entry a))"
    and "twice (searchForAlbum sp) a w = ((r1, a1, w1), (r2, a2, w2))"
  shows "\<not> isl r2 \<and> a2 = a1 \<and> w2 = w1 \<and> length (calls w2) \<le> length (calls w) + 1"
proof -
  from assms(2) have 1: "searchForAlbum sp a w = (r1, a1, w1)"
    and 2: "searchForAlbum sp a1 w1 = (r2, a2, w2)"
    by (auto simp: twice_def Let_def)
  from album_search_caches [OF 1 assms(1)] have "album_cached a1" .
  from album_cached_noop [OF this, of sp w1] 2 have "\<not> isl r2 \<and> a2 = a1 \<and> w2 = w1"
    by auto
  with album_search_calls [OF 1] show ?thesis by simp
qed

lemma artist_twice:
  assumes "artist_cached a
       \<or> (\<exists>v s. searchForArtist_rq sp (ar_entry a) (remote w) = (Inr v, s) \<and> truthy v)
       \<or> (\<exists>e s. searchForArtist_rq sp (ar_entry a) (remote w) = (Inl e, s) \<and>
            match_id (ar_entry a))"
    and "twice (searchForArtist sp) a w = ((r1, a1, w1), (r2, a2, w2))"
  shows "\<not> isl r2 \<and> a2 = a1 \<and> w2 = w1 \<and> length (calls w2) \<le> length (calls w) + 1"
proof -
  from assms(2) have 1: "searchForArtist sp a w = (r1, a1, w1)"
    and 2: "searchForArtist sp a1 w1 = (r2, a2, w2)"
    by (auto simp: twice_def Let_def)
  from artist_search_caches [OF 1 assms(1)] have "artist_cached a1" .
  from artist_cached_noop [OF this, of sp w1] 2 have "\<not> isl r2 \<and> a2 = a1 \<and> w2 = w1"
    by auto
  with artist_search_calls [OF 1] show ?thesis by simp
qed

text \<open>
  C2, as the code has it. A call on an entry that holds a truthy id or a cached response
  resolves at once: no request is issued and the entry is unchanged. Two calls in a row
  issue at most one search, and the second resolves and leaves the entry (so its id) as
  the first left it, whenever the first call had something to cache: the entry was cached
  already, or the search resolved with a truthy result, or the search was rejected and the
  entry string matches the identifier pattern.
\<close>

theorem resolve_twice_when_cached:
  "(album_cached a \<longrightarrow> \<not> isl (fst (searchForAlbum sp a w)) \<and> snd (searchForAlbum sp a w) = (a, w))
   \<and> (album_cached a
       \<or> (\<exists>v s. searchForAlbum_rq sp (al_entry a) (remote w) = (Inr v, s) \<and> truthy v)
       \<or> (\<exists>e s. searchForAlbum_rq sp (al_entry a) (remote w) = (Inl e, s) \<and>
            match_id (al_entry a))
      \<longrightarrow> (case twice (searchForAlbum sp) a w of ((r1, a1, w1), (r2, a2, w2)) \<Rightarrow>
            \<not> isl r2 \<and> a2 = a1 \<and> w2 = w1 \<and> al_id a2 = al_id a1 \<and>
            length (calls w2) \<le> length (calls w) + 1))
   \<and> (artist_cached b \<longrightarrow>
        \<not> isl (fst (searchForArtist sp b w)) \<and> snd (searchForArtist sp b w) = (b, w))
   \<and> (artist_cached b
       \<or> (\<exists>v s. searchForArtist_rq sp (ar_entry b) (remote w) = (Inr v, s) \<and> truthy v)
       \<or> (\<exists>e s. searchForArtist_rq sp (ar_entry b) (remote w) = (Inl e, s) \<and>
            match_id (ar_entry b))
      \<longrightarrow> (case twice (searchForArtist sp) b w of ((r1, b1, w1), (r2, b2, w2)) \<Rightarrow>
            \<not> isl r2 \<and> b2 = b1 \<and> w2 = w1 \<and> ar_id b2 = ar_id b1 \<and>
            length (calls w2) \<le> length (calls w) + 1))"
proof (intro conjI impI)
  assume "album_cached a"
  from album_cached_noop [OF this, of sp w]
  show "\<not> isl (fst (searchForAlbum sp a w))" and "snd (searchForAlbum sp a w) = (a, w)"
    by auto
next
  assume "artist_cached b"
  from artist_cached_noop [OF this, of sp w]
  show "\<not> isl (fst (searchForArtist sp b w))" and "snd (searchForArtist sp b w) = (b, w)"
    by auto
next
  assume h: "album_cached a
       \<or> (\<exists>v s. searchForAlbum_rq sp (al_entry a) (remote w) = (Inr v, s) \<and> truthy v)
       \<or> (\<exists>e s. searchForAlbum_rq sp (al_entry a) (remote w) = (Inl e, s) \<and>
            match_id (al_entry a))"
  obtain r1 a1 w1 r2 a2 w2
    where t: "twice (searchForAlbum sp) a w = ((r1, a1, w1), (r2, a2, w2))"
    by (metis prod_cases3 surj_pair)
  from album_twice [OF h t] t
  show "case twice (searchForAlbum sp) a w of ((r1, a1, w1), (r2, a2, w2)) \<Rightarrow>
            \<not> isl r2 \<and> a2 = a1 \<and> w2 = w1 \<and> al_id a2 = al_id a1 \<and>
            length (calls w2) \<le> length (calls w) + 1"
    by auto
next
  assume h: "artist_cached b
       \<or> (\<exists>v s. searchForArtist_rq sp (ar_entry b) (remote w) = (Inr v, s) \<and> truthy v)
       \<or> (\<exists>e s. searchForArtist_rq sp (ar_entry b) (remote w) = (Inl e, s) \<and>
            match_id (ar_entry b))"
  obtain r1 b1 w1 r2 b2 w2
    where t: "twice (searchForArtist sp) b w = ((r1, b1, w1), (r2, b2, w2))"
    by (metis prod_cases3 surj_pair)
  from artist_twice [OF h t] t
  show "case twice (searchForArtist sp) b w of ((r1, b1, w1), (r2, b2, w2)) \<Rightarrow>
            \<not> isl r2 \<and> b2 = b1 \<and> w2 = w1 \<and> ar_id b2 = ar_id b1 \<and>
            length (calls w2) \<le> length (calls w) + 1"
    by auto
qed

theorem resolve_twice_when_cached_witness:
  "calls (snd (snd (snd (twice (searchForAlbum catalog)
        (new_Album ''Kid A'' Undefined Undefined) world0)))) = [SearchForAlbum ''Kid A'']
   \<and> al_id (fst (snd (snd (twice (searchForAlbum catalog)
        (new_Album ''Kid A'' Undefined Undefined) world0)))) = JStr ''6GjwtEZcfenmOf6l18N7T7''
   \<and> calls (snd (snd (snd (twice (searchForArtist catalog)
        (new_Artist ''Radiohead'' Undefined Undefined) world0))))
       = [SearchForArtist ''Radiohead'']
   \<and> ar_id (fst (snd (snd (twice (searchForArtist catalog)
        (new_Artist ''Radiohead'' Undefined Undefined) world0))))
       = JStr ''4Z8W4fKeB5YxbusRsdQVPb''"
  using resolve_twice_when_cached [of "new_Album ''Kid A'' Undefined Undefined" catalog world0
      "new_Artist ''Radiohead'' Undefined Undefined"]
  by (simp add: twice_def Let_def new_Album_def new_Artist_def Album_setLimit_def
      Artist_setLimit_def trim_def is_space_def catalog_def world0_def
      searchForAlbum_def searchForArtist_def request_def album_search_then_def
      artist_search_then_def album_hit_id_def artist_hit_id_def andand_def bindE_def
      console_log_def album_cached_def artist_cached_def)

text \<open>
  C2 as stated fails: the search of an entry that does not match the identifier pattern is
  rejected, nothing is cached, and the second call searches again.
\<close>

theorem resolve_twice_counterexample:
  "calls (snd (snd (snd (twice (searchForAlbum offline)
      (new_Album ''Loveless (1991)'' Undefined Undefined) world0))))
   = [SearchForAlbum ''Loveless (1991)'', SearchForAlbum ''Loveless (1991)'']"
  by (simp add: twice_def new_Album_def Album_setLimit_def trim_def is_space_def is_alnum_def
      offline_def world0_def searchForAlbum_def request_def album_search_catch_def
      console_log_def)

section \<open>What changes the id of an entry\<close>

lemma fetchAlbum_id: "al_id (fst (snd (fetchAlbum sp a w))) = al_id a"
  by (simp add: fetchAlbum_def request_def split: prod.splits sum.splits)

lemma fetchAlbums_id: "ar_id (fst (snd (fetchAlbums sp a w))) = ar_id a"
  by (simp add: fetchAlbums_def request_def split: prod.splits sum.splits)

lemma searchForAlbum_truthy_id: "truthy (al_id a) \<Longrightarrow> snd (searchForAlbum sp a w) = (a, w)"
  by (simp add: searchForAlbum_def)

lemma searchForArtist_truthy_id: "truthy (ar_id a) \<Longrightarrow> snd (searchForArtist sp a w) = (a, w)"
  by (simp add: searchForArtist_def)

lemma Album_dispatch_truthy_id:
  assumes "truthy (al_id a)"
  shows "al_id (fst (snd (Album_dispatch sp a w))) = al_id a"
proof -
  obtain r where s: "searchForAlbum sp a w = (r, a, w)"
    using searchForAlbum_truthy_id [OF assms, of sp w]
    by (cases "searchForAlbum sp a w") auto
  obtain r' a' w' where f: "fetchAlbum sp a w = (r', a', w')"
    by (cases "fetchAlbum sp a w") auto
  with fetchAlbum_id [of sp a w] have "al_id a' = al_id a" by simp
  with s f show ?thesis
    by (simp add: Album_dispatch_def split: sum.splits)
qed

lemma Artist_dispatch_truthy_id:
  assumes "truthy (ar_id a)"
  shows "ar_id (fst (snd (Artist_dispatch lb sp a w))) = ar_id a"
proof -
  obtain r where s: "searchForArtist sp a w = (r, a, w)"
    using searchForArtist_truthy_id [OF assms, of sp w]
    by (cases "searchForArtist sp a w") auto
  obtain r' a' w' where f: "fetchAlbums sp a w = (r', a', w')"
    by (cases "fetchAlbums sp a w") auto
  with fetchAlbums_id [of sp a w] have "ar_id a' = ar_id a" by simp
  with s f show ?thesis
    by (simp add: Artist_dispatch_def split: sum.splits prod.splits)
qed

lemma Album_setResponse_full:
  assumes "map_of kvs ''albums'' = None" "map_of kvs ''id'' = Some i" "truthy i"
  shows "Album_setResponse a (JObj kvs) = Inr (a\<lparr>albumResponse := JObj kvs, al_id := i\<rparr>)"
  using assms by (simp add: Album_setResponse_def andand_def bindE_def)

lemma Artist_setResponse_full:
  assumes "map_of kvs ''artists'' = None" "map_of kvs ''id'' = Some i" "truthy i"
  shows "Artist_setResponse a (JObj kvs) = Inr (a\<lparr>artistResponse := JObj kvs, ar_id := i\<rparr>)"
  using assms by (simp add: Artist_setResponse_def andand_def bindE_def)

text \<open>
  C3, as the code has it. Once the id of an Album or Artist entry is truthy, resolving the
  identity, fetching the album or the album list, and dispatching leave the id as it is.
  \<^verbatim>\<open>setResponse\<close> is a setter: given a full catalog object (one with a truthy \<^verbatim>\<open>id\<close> and no
  list of search hits) it stores the object and overwrites the id with the object's.
\<close>

theorem truthy_id_kept:
  "(truthy (al_id a) \<longrightarrow>
      al_id (fst (snd (searchForAlbum sp a w))) = al_id a \<and>
      al_id (fst (snd (fetchAlbum sp a w))) = al_id a \<and>
      al_id (fst (snd (Album_dispatch sp a w))) = al_id a)
   \<and> (truthy (ar_id b) \<longrightarrow>
      ar_id (fst (snd (searchForArtist sp b w))) = ar_id b \<and>
      ar_id (fst (snd (fetchAlbums sp b w))) = ar_id b \<and>
      ar_id (fst (snd (Artist_dispatch lb sp b w))) = ar_id b)
   \<and> (map_of kvs ''albums'' = None \<and> map_of kvs ''id'' = Some i \<and> truthy i \<longrightarrow>
      Album_setResponse a (JObj kvs) = Inr (a\<lparr>albumResponse := JObj kvs, al_id := i\<rparr>))
   \<and> (map_of kvs' ''artists'' = None \<and> map_of kvs' ''id'' = Some i' \<and> truthy i' \<longrightarrow>
      Artist_setResponse b (JObj kvs') = Inr (b\<lparr>artistResponse := JObj kvs', ar_id := i'\<rparr>))"
  by (simp add: searchForAlbum_truthy_id searchForArtist_truthy_id fetchAlbum_id fetchAlbums_id
      Album_dispatch_truthy_id Artist_dispatch_truthy_id Album_setResponse_full
      Artist_setResponse_full)

theorem truthy_id_kept_witness:
  "al_id (fst (snd (Album_dispatch catalog
      (new_Album ''Kid A'' (JStr ''6GjwtEZcfenmOf6l18N7T7'') Undefined) world0)))
     = JStr ''6GjwtEZcfenmOf6l18N7T7''
   \<and> ar_id (fst (snd (Artist_dispatch lib0 catalog
      (new_Artist ''Radiohead'' (JStr ''4Z8W4fKeB5YxbusRsdQVPb'') Undefined) world0)))
     = JStr ''4Z8W4fKeB5YxbusRsdQVPb''
   \<and> Album_setResponse (new_Album ''Kid A'' (JStr ''6GjwtEZcfenmOf6l18N7T7'') Undefined)
        (JObj [(''id'', JStr ''2guirTSEqLizK7j9i1MTTZ'')])
     = Inr ((new_Album ''Kid A'' (JStr ''6GjwtEZcfenmOf6l18N7T7'') Undefined)
         \<lparr>albumResponse := JObj [(''id'', JStr ''2guirTSEqLizK7j9i1MTTZ'')],
          al_id := JStr ''2guirTSEqLizK7j9i1MTTZ''\<rparr>)
   \<and> Artist_setResponse (new_Artist ''Radiohead'' (JStr ''4Z8W4fKeB5YxbusRsdQVPb'') Undefined)
        (JObj [(''id'', JStr ''0oSGxfWSnnOXhD2fKuz2Gy'')])
     = Inr ((new_Artist ''Radiohead'' (JStr ''4Z8W4fKeB5YxbusRsdQVPb'') Undefined)
         \<lparr>artistResponse := JObj [(''id'', JStr ''0oSGxfWSnnOXhD2fKuz2Gy'')],
          ar_id := JStr ''0oSGxfWSnnOXhD2fKuz2Gy''\<rparr>)"
  using truthy_id_kept [of "new_Album ''Kid A'' (JStr ''6GjwtEZcfenmOf6l18N7T7'') Undefined"
      catalog world0 "new_Artist ''Radiohead'' (JStr ''4Z8W4fKeB5YxbusRsdQVPb'') Undefined" lib0
      "[(''id'', JStr ''2guirTSEqLizK7j9i1MTTZ'')]" "JStr ''2guirTSEqLizK7j9i1MTTZ''"
      "[(''id'', JStr ''0oSGxfWSnnOXhD2fKuz2Gy'')]" "JStr ''0oSGxfWSnnOXhD2fKuz2Gy''"]
  by (simp add: new_Album_def new_Artist_def Album_setLimit_def Artist_setLimit_def)

text \<open>
  C3 as stated fails: an artist entry created with a known id is given a search response
  whose first hit has another id, and \<^verbatim>\<open>setResponse\<close> replaces the id.
\<close>

theorem id_replaced_counterexample:
  "ar_id (new_Artist ''Radiohead'' (JStr ''4Z8W4fKeB5YxbusRsdQVPb'') Undefined)
     = JStr ''4Z8W4fKeB5YxbusRsdQVPb''
   \<and> Artist_setResponse (new_Artist ''Radiohead'' (JStr ''4Z8W4fKeB5YxbusRsdQVPb'') Undefined)
        (JObj [(''artists'', JObj [(''items'',
           JArr [JObj [(''id'', JStr ''0oSGxfWSnnOXhD2fKuz2Gy'')]])])])
     = Inr \<lparr>artistResponse = Null, albumsResponse = Null, ar_entry = ''Radiohead'',
            ar_limit = None,
            ar_searchResponse = JObj [(''artists'', JObj [(''items'',
              JArr [JObj [(''id'', JStr ''0oSGxfWSnnOXhD2fKuz2Gy'')]])])],
            ar_id = JStr ''0oSGxfWSnnOXhD2fKuz2Gy''\<rparr>"
  by (simp add: new_Artist_def Artist_setLimit_def trim_def is_space_def
      Artist_setResponse_def andand_def bindE_def)

section \<open>How failures surface\<close>












section \<open>The limit of an album's queue\<close>

lemma Queue_slice_prefix: "0 < k \<Longrightarrow> Queue_slice 0 k xs = take (nat k) xs"
  by (simp add: Queue_slice_def slice_bound_def min_def)

lemma mapE_tracks:
  "mapE (\<lambda>item. bindE m (\<lambda>title.
      Inr (Track_setAlbum (Track_setResponse (new_Track e) item) title))) xs = Inr ys
   \<Longrightarrow> map tr_response ys = xs"
proof (induction xs arbitrary: ys)
  case Nil
  then show ?case by simp
next
  case (Cons x xs)
  then show ?case
    by (auto simp: bindE_def Track_setAlbum_def Track_setResponse_def new_Track_def
        split: sum.splits)
qed

lemma Album_createQueue_unlimited:
  assumes "Album_createQueue (a\<lparr>al_limit := None\<rparr>) = Inr ys"
  shows "\<exists>items. bindE (get (albumResponse a) ''tracks'') (\<lambda>tr. get tr ''items'')
           = Inr (JArr items) \<and> map tr_response ys = items"
proof -
  obtain tr where tr: "get (albumResponse a) ''tracks'' = Inr tr"
    using assms by (cases "get (albumResponse a) ''tracks''")
      (auto simp: Album_createQueue_def bindE_def)
  obtain its where its: "get tr ''items'' = Inr its"
    using assms tr by (cases "get tr ''items''") (auto simp: Album_createQueue_def bindE_def)
  obtain items where items: "its = JArr items"
    using assms tr its
    by (cases its) (auto simp: Album_createQueue_def bindE_def js_map_def Album_title_def)
  have "mapE (\<lambda>item. bindE (Album_title (a\<lparr>al_limit := None\<rparr>)) (\<lambda>title.
      Inr (Track_setAlbum (Track_setResponse (new_Track (al_entry a)) item) title))) items
      = Inr ys"
    using assms tr its items
    by (auto simp: Album_createQueue_def bindE_def js_map_def split: sum.splits)
  from mapE_tracks [OF this] tr its items show ?thesis
    by (simp add: bindE_def)
qed

lemma Album_title_limit: "Album_title (a\<lparr>al_limit := l\<rparr>) = Album_title a"
  by (simp add: Album_title_def cong: if_cong)

lemma Album_createQueue_limited:
  assumes "al_limit a = Some k" "0 < k" "Album_createQueue a = Inr q"
  shows "\<exists>ys. Album_createQueue (a\<lparr>al_limit := None\<rparr>) = Inr ys \<and> q = take (nat k) ys"
  using assms
  by (auto simp: Album_createQueue_def Album_title_limit bindE_def Queue_slice_prefix
      split: sum.splits)

lemma Album_createQueue_zero:
  "al_limit a = Some 0 \<Longrightarrow> Album_createQueue a = Album_createQueue (a\<lparr>al_limit := None\<rparr>)"
  by (simp add: Album_createQueue_def Album_title_limit)

lemma searchForAlbum_limit: "al_limit (fst (snd (searchForAlbum sp a w))) = al_limit a"
  by (simp add: searchForAlbum_def request_def album_search_then_def album_search_catch_def
      Let_def split: prod.splits sum.splits)

lemma fetchAlbum_limit: "al_limit (fst (snd (fetchAlbum sp a w))) = al_limit a"
  by (simp add: fetchAlbum_def request_def split: prod.splits sum.splits)

lemma Album_dispatch_queue:
  assumes "fst (Album_dispatch sp a w) = Inr (DQueue q)"
  shows "\<exists>a2. al_limit a2 = al_limit a \<and> Album_createQueue a2 = Inr q"
proof -
  obtain r1 a1 w1 where s: "searchForAlbum sp a w = (r1, a1, w1)"
    by (cases "searchForAlbum sp a w") auto
  obtain r2 a2 w2 where f: "fetchAlbum sp a1 w1 = (r2, a2, w2)"
    by (cases "fetchAlbum sp a1 w1") auto
  from s searchForAlbum_limit [of sp a w] have "al_limit a1 = al_limit a" by simp
  moreover from f fetchAlbum_limit [of sp a1 w1] have "al_limit a2 = al_limit a1" by simp
  moreover from assms s f have "Album_createQueue a2 = Inr q"
    by (auto simp: Album_dispatch_def split: if_splits sum.splits)
  ultimately show ?thesis by auto
qed

text \<open>
  C5, as the code has it. With a limit \<open>k > 0\<close> the queue of an album is the first \<open>k\<close>
  tracks of the album's track listing, in the listing's order: at most \<open>k\<close> elements, a
  prefix of the queue the album has without a limit, whose metadata are the items of the
  album response one by one. The same bound holds of the queue \<^verbatim>\<open>dispatch\<close> resolves with.
  The limit 0 is no limit: the guard \<^verbatim>\<open>if (self.limit)\<close> skips the slice.
\<close>

theorem limit_enforced:
  "(al_limit a = Some k \<and> 0 < k \<and> Album_createQueue a = Inr q \<longrightarrow>
      length q \<le> nat k \<and>
      (\<exists>ys items. Album_createQueue (a\<lparr>al_limit := None\<rparr>) = Inr ys \<and> q = take (nat k) ys \<and>
         bindE (get (albumResponse a) ''tracks'') (\<lambda>tr. get tr ''items'') = Inr (JArr items) \<and>
         map tr_response ys = items))
   \<and> (al_limit a = Some 0 \<longrightarrow>
        Album_createQueue a = Album_createQueue (a\<lparr>al_limit := None\<rparr>))
   \<and> (al_limit a = Some k \<and> 0 < k \<and> fst (Album_dispatch sp a w) = Inr (DQueue q') \<longrightarrow>
        length q' \<le> nat k)"
proof (intro conjI impI)
  assume h: "al_limit a = Some k \<and> 0 < k \<and> Album_createQueue a = Inr q"
  then obtain ys where ys: "Album_createQueue (a\<lparr>al_limit := None\<rparr>) = Inr ys"
      "q = take (nat k) ys"
    using Album_createQueue_limited by blast
  from ys(2) show "length q \<le> nat k" by simp
  from Album_createQueue_unlimited [OF ys(1)] ys
  show "\<exists>ys items. Album_createQueue (a\<lparr>al_limit := None\<rparr>) = Inr ys \<and> q = take (nat k) ys \<and>
         bindE (get (albumResponse a) ''tracks'') (\<lambda>tr. get tr ''items'') = Inr (JArr items) \<and>
         map tr_response ys = items"
    by blast
next
  assume "al_limit a = Some 0"
  then show "Album_createQueue a = Album_createQueue (a\<lparr>al_limit := None\<rparr>)"
    by (rule Album_createQueue_zero)
next
  assume h: "al_limit a = Some k \<and> 0 < k \<and> fst (Album_dispatch sp a w) = Inr (DQueue q')"
  then obtain a2 where a2: "al_limit a2 = Some k" "Album_createQueue a2 = Inr q'"
    using Album_dispatch_queue [of sp a w q'] by auto
  with h obtain ys where "q' = take (nat k) ys"
    using Album_createQueue_limited [of a2 k q'] by auto
  then show "length q' \<le> nat k" by simp
qed

theorem limit_enforced_witness:
  "fst (Album_dispatch catalog (new_Album ''Kid A'' Undefined (JNum 2)) world0)
     = Inr (DQueue
        [\<lparr>tr_entry = ''Kid A'', tr_response = kid_a_tracks ! 0, tr_album = JStr ''Kid A''\<rparr>,
         \<lparr>tr_entry = ''Kid A'', tr_response = kid_a_tracks ! 1, tr_album = JStr ''Kid A''\<rparr>])
   \<and> Album_createQueue ((new_Album ''Kid A'' Undefined (JNum 0))\<lparr>albumResponse := kid_a\<rparr>)
     = Album_createQueue ((new_Album ''Kid A'' Undefined Undefined)\<lparr>albumResponse := kid_a\<rparr>)"
  using limit_enforced [of "(new_Album ''Kid A'' Undefined (JNum 0))\<lparr>albumResponse := kid_a\<rparr>"]
    limit_enforced [of "new_Album ''Kid A'' Undefined (JNum 2)" 2 _ catalog world0
      "[\<lparr>tr_entry = ''Kid A'', tr_response = kid_a_tracks ! 0, tr_album = JStr ''Kid A''\<rparr>,
        \<lparr>tr_entry = ''Kid A'', tr_response = kid_a_tracks ! 1, tr_album = JStr ''Kid A''\<rparr>]"]
  by (simp add: new_Album_def Album_setLimit_def trim_def is_space_def catalog_def world0_def
      kid_a_def kid_a_tracks_def Album_dispatch_def searchForAlbum_def request_def
      album_search_then_def album_hit_id_def andand_def bindE_def fetchAlbum_def
      Album_createQueue_def Album_title_def js_map_def Queue_slice_def slice_bound_def
      Track_setAlbum_def Track_setResponse_def new_Track_def)

text \<open>
  C5 as stated fails at \<open>k = 0\<close>: an album created with the limit 0 dispatches to the queue
  of all three tracks of the album.
\<close>

theorem limit_zero_counterexample:
  "fst (Album_dispatch catalog (new_Album ''Kid A'' Undefined (JNum 0)) world0)
     = Inr (DQueue
        [\<lparr>tr_entry = ''Kid A'', tr_response = kid_a_tracks ! 0, tr_album = JStr ''Kid A''\<rparr>,
         \<lparr>tr_entry = ''Kid A'', tr_response = kid_a_tracks ! 1, tr_album = JStr ''Kid A''\<rparr>,
         \<lparr>tr_entry = ''Kid A'', tr_response = kid_a_tracks ! 2, tr_album = JStr ''Kid A''\<rparr>])"
  by (simp add: new_Album_def Album_setLimit_def trim_def is_space_def catalog_def world0_def
      kid_a_def kid_a_tracks_def Album_dispatch_def searchForAlbum_def request_def
      album_search_then_def album_hit_id_def andand_def bindE_def fetchAlbum_def
      Album_createQueue_def Album_title_def js_map_def
      Track_setAlbum_def Track_setResponse_def new_Track_def)

section \<open>The tracks of an artist credit the artist\<close>

lemma filter_hasArtist_sound:
  "filter_hasArtist p es = Inr ts \<Longrightarrow> \<forall>t\<in>set ts. p t"
proof (induction p es arbitrary: ts rule: filter_hasArtist.induct)
  case (1 p)
  then show ?case by simp
next
  case (2 p t es)
  then show ?case
    by (auto simp: bindE_def split: sum.splits if_splits)
next
  case (3 p v es)
  then show ?case by simp
qed

lemma Artist_createQueue_sound:
  assumes "fst (Artist_createQueue lb sp a w) = Inr q"
  shows "\<forall>t\<in>set q. Track_hasArtist lb t (ar_entry a)"
proof -
  from assms obtain es
    where "filter_hasArtist (\<lambda>t. Track_hasArtist lb t (ar_entry a)) es = Inr q"
    by (auto simp: Artist_createQueue_def split: sum.splits prod.splits)
  then show ?thesis by (rule filter_hasArtist_sound)
qed

lemma searchForArtist_entry: "ar_entry (fst (snd (searchForArtist sp a w))) = ar_entry a"
  by (simp add: searchForArtist_def request_def artist_search_then_def artist_search_catch_def
      Let_def split: prod.splits sum.splits)

lemma fetchAlbums_entry: "ar_entry (fst (snd (fetchAlbums sp a w))) = ar_entry a"
  by (simp add: fetchAlbums_def request_def split: prod.splits sum.splits)

lemma Artist_dispatch_sound:
  assumes "fst (Artist_dispatch lb sp a w) = Inr q"
  shows "\<forall>t\<in>set q. Track_hasArtist lb t (ar_entry a)"
proof -
  obtain r1 a1 w1 where s: "searchForArtist sp a w = (r1, a1, w1)"
    by (cases "searchForArtist sp a w") auto
  obtain r2 a2 w2 where f: "fetchAlbums sp a1 w1 = (r2, a2, w2)"
    by (cases "fetchAlbums sp a1 w1") auto
  from s searchForArtist_entry [of sp a w] have "ar_entry a1 = ar_entry a" by simp
  moreover from f fetchAlbums_entry [of sp a1 w1] have "ar_entry a2 = ar_entry a1" by simp
  moreover from assms s f have "fst (Artist_createQueue lb sp a2 w2) = Inr q"
    by (auto simp: Artist_dispatch_def split: sum.splits prod.splits)
  ultimately show ?thesis
    using Artist_createQueue_sound [of lb sp a2 w2 q] by simp
qed

text \<open>
  C8. Every track of the queue that \<^verbatim>\<open>Artist.createQueue\<close>, and so \<^verbatim>\<open>Artist.dispatch\<close>,
  resolves with passes \<^verbatim>\<open>track.hasArtist\<close> for the artist's entry string: a track that
  does not credit the requested artist does not survive the final filter.
\<close>

theorem artist_tracks_credit_artist:
  "(fst (Artist_createQueue lb sp a w) = Inr q \<longrightarrow>
      (\<forall>t\<in>set q. Track_hasArtist lb t (ar_entry a)))
   \<and> (fst (Artist_dispatch lb sp a w) = Inr q' \<longrightarrow>
      (\<forall>t\<in>set q'. Track_hasArtist lb t (ar_entry a)))"
  using Artist_createQueue_sound Artist_dispatch_sound by blast

theorem artist_tracks_credit_artist_witness:
  "fst (Artist_dispatch lib0 catalog (new_Artist ''Radiohead'' Undefined Undefined) world0)
     = Inr [\<lparr>tr_entry = ''Radiohead'', tr_response = kid_a_tracks ! 0,
             tr_album = JStr ''Kid A''\<rparr>,
            \<lparr>tr_entry = ''Radiohead'', tr_response = kid_a_tracks ! 2,
             tr_album = JStr ''Kid A''\<rparr>]
   \<and> credits \<lparr>tr_entry = ''Radiohead'', tr_response = kid_a_tracks ! 0,
             tr_album = JStr ''Kid A''\<rparr> ''Radiohead''
   \<and> credits \<lparr>tr_entry = ''Radiohead'', tr_response = kid_a_tracks ! 2,
             tr_album = JStr ''Kid A''\<rparr> ''Radiohead''
   \<and> \<not> credits \<lparr>tr_entry = ''Radiohead'', tr_response = kid_a_tracks ! 1,
             tr_album = JStr ''Kid A''\<rparr> ''Radiohead''"
proof -
  have run: "fst (Artist_dispatch lib0 catalog
      (new_Artist ''Radiohead'' Undefined Undefined) world0)
     = Inr [\<lparr>tr_entry = ''Radiohead'', tr_response = kid_a_tracks ! 0,
             tr_album = JStr ''Kid A''\<rparr>,
            \<lparr>tr_entry = ''Radiohead'', tr_response = kid_a_tracks ! 2,
             tr_album = JStr ''Kid A''\<rparr>]"
    by (simp add: new_Artist_def Artist_setLimit_def new_Album_def Album_setLimit_def trim_def
        is_space_def catalog_def world0_def lib0_def credits_def kid_a_def kid_a_tracks_def
        Artist_dispatch_def searchForArtist_def request_def artist_search_then_def
        artist_hit_id_def console_log_def fetchAlbums_def Artist_createQueue_def
        Album_setResponse_def Queue_sort_def Queue_flatten_def
        Album_dispatch_def searchForAlbum_def fetchAlbum_def Album_createQueue_def
        Album_title_def js_map_def andand_def bindE_def
        Track_setAlbum_def Track_setResponse_def new_Track_def)
  have no: "\<not> credits \<lparr>tr_entry = ''Radiohead'', tr_response = kid_a_tracks ! 1,
             tr_album = JStr ''Kid A''\<rparr> ''Radiohead''"
    by (simp add: credits_def kid_a_tracks_def)
  from artist_tracks_credit_artist [of lib0 catalog
      "new_Artist ''Radiohead'' Undefined Undefined" world0 _
      "[\<lparr>tr_entry = ''Radiohead'', tr_response = kid_a_tracks ! 0, tr_album = JStr ''Kid A''\<rparr>,
        \<lparr>tr_entry = ''Radiohead'', tr_response = kid_a_tracks ! 2, tr_album = JStr ''Kid A''\<rparr>]"]
    run no
  show ?thesis
    by (simp add: lib0_def new_Artist_def Artist_setLimit_def trim_def is_space_def)
qed

section \<open>The Last.fm crawl drains its work queue\<close>

lemma lastfm_getPages_Suc_success:
  assumes "lastfm_getPages (Suc fuel) env uri nextUri result count urls = Some (Inr buf, vs)"
  obtains (stop) a lines where
      "uri_absoluteTo env (JStr nextUri) uri = Inr a"
      "(case urls of None \<Rightarrow> [] | Some us \<Rightarrow> us) = []"
      "buf = result @ lines" "vs = [\<lparr>v_uri = a, v_pushed = []\<rparr>]"
  | (continue) a lines pushed u us vs' where
      "uri_absoluteTo env (JStr nextUri) uri = Inr a"
      "(case urls of None \<Rightarrow> [] | Some us \<Rightarrow> us) @ pushed = u # us"
      "lastfm_getPages fuel env uri u (result @ lines) 1 (Some us) = Some (Inr buf, vs')"
      "vs = \<lparr>v_uri = a, v_pushed = pushed\<rparr> # vs'"
  using assms
  by (auto simp: Let_def split: sum.splits option.splits prod.splits list.splits if_splits)

lemma lastfm_getPages_prefix:
  "lastfm_getPages fuel env uri nextUri result count urls = Some (Inr buf, vs)
   \<Longrightarrow> prefix result buf"
proof (induction fuel arbitrary: nextUri result count urls buf vs)
  case 0
  then show ?case by simp
next
  case (Suc fuel)
  from Suc.prems show ?case
  proof (cases rule: lastfm_getPages_Suc_success)
    case (stop a lines)
    then show ?thesis by simp
  next
    case (continue a lines pushed u us vs')
    from Suc.IH [OF continue(3)] show ?thesis
      by (rule append_prefixD)
  qed
qed


lemma lastfm_getPages_drained:
  "lastfm_getPages fuel env uri nextUri result count urls = Some (Inr buf, vs) \<Longrightarrow>
   map (\<lambda>v. Inr (v_uri v)) vs
     = map (\<lambda>u. uri_absoluteTo env (JStr u) uri)
         (nextUri # (case urls of None \<Rightarrow> [] | Some us \<Rightarrow> us) @ concat (map v_pushed vs))"
proof (induction fuel arbitrary: nextUri result count urls buf vs)
  case 0
  then show ?case by simp
next
  case (Suc fuel)
  from Suc.prems show ?case
  proof (cases rule: lastfm_getPages_Suc_success)
    case (stop a lines)
    then show ?thesis by simp
  next
    case (continue a lines pushed u us vs')
    from Suc.IH [OF continue(3)]
    have "map (\<lambda>v. Inr (v_uri v)) vs'
      = map (\<lambda>u. uri_absoluteTo env (JStr u) uri) ((u # us) @ concat (map v_pushed vs'))"
      by simp
    with continue(1,4) show ?thesis
      unfolding continue(2) [symmetric] by simp
  qed
qed







lemma lastfm_scenario:
  "lastfm 3 (toy lastfm_site) ''https://www.last.fm/music/Radiohead/+tracks'' (Some 1)
   = Some (Inr lastfm_buffer, lastfm_visits)"
  by code_simp



section \<open>The Last.fm buffer asks for shuffling\<close>

text \<open>
  C10. The buffer a Last.fm crawl returns begins with the line \<^verbatim>\<open>#shuffle\<close>, whatever the
  URI, the page budget and the pages.
\<close>

theorem lastfm_buffer_shuffle:
  "lastfm fuel env uri count = Some (Inr buf, vs) \<Longrightarrow> prefix (''#shuffle'' @ newline) buf"
  unfolding lastfm_def by (rule lastfm_getPages_prefix)

theorem lastfm_buffer_shuffle_witness:
  "lastfm 3 (toy lastfm_site) ''https://www.last.fm/music/Radiohead/+tracks'' (Some 1)
     = Some (Inr lastfm_buffer, lastfm_visits)
   \<and> prefix (''#shuffle'' @ newline) lastfm_buffer"
  using lastfm_buffer_shuffle [OF lastfm_scenario] lastfm_scenario by simp

section \<open>Crawls that follow a next-page link\<close>

lemma linear_getPages_Suc_success:
  assumes "linear_getPages (Suc fuel) env ex nx lk uri nextUri result count = Some (Inr buf, vs)"
  obtains (stop) a data where
      "uri_absoluteTo env nextUri uri = Inr a" "http_get env a = Inr data"
      "count = 1 \<or> jq_each env (nx (parseHTML env data)) = []"
      "vs = [\<lparr>v_uri = a, v_pushed = []\<rparr>]"
  | (continue) a data vs' where
      "uri_absoluteTo env nextUri uri = Inr a" "http_get env a = Inr data"
      "count \<noteq> 1" "jq_each env (nx (parseHTML env data)) \<noteq> []"
      "linear_getPages fuel env ex nx lk uri (lk (nx (parseHTML env data)))
         (result @ ex (parseHTML env data)) (count - 1) = Some (Inr buf, vs')"
      "vs = \<lparr>v_uri = a, v_pushed = []\<rparr> # vs'"
  using assms
  by (auto simp: Let_def split: sum.splits option.splits prod.splits if_splits)

lemma linear_getPages_stop:
  "linear_getPages fuel env ex nx lk uri nextUri result count = Some (Inr buf, vs) \<Longrightarrow>
   vs \<noteq> [] \<and> (int (length vs) = count \<or> \<not> has_next env nx (v_uri (last vs)))"
proof (induction fuel arbitrary: nextUri result count buf vs)
  case 0
  then show ?case by simp
next
  case (Suc fuel)
  from Suc.prems show ?case
  proof (cases rule: linear_getPages_Suc_success)
    case (stop a data)
    then show ?thesis by (auto simp: has_next_def)
  next
    case (continue a data vs')
    from Suc.IH [OF continue(5)] continue(6) show ?thesis by auto
  qed
qed

lemma linear_getPages_bound:
  "1 \<le> count \<Longrightarrow> nat count \<le> fuel \<Longrightarrow>
   \<exists>r vs. linear_getPages fuel env ex nx lk uri nextUri result count = Some (r, vs) \<and>
          int (length vs) \<le> count"
proof (induction fuel arbitrary: nextUri result count)
  case 0
  then show ?case by simp
next
  case (Suc fuel)
  show ?case
  proof (cases "uri_absoluteTo env nextUri uri")
    case (Inl e)
    with Suc.prems show ?thesis by simp
  next
    case a: (Inr a)
    show ?thesis
    proof (cases "http_get env a")
      case (Inl e)
      with a Suc.prems show ?thesis by simp
    next
      case d: (Inr data)
      show ?thesis
      proof (cases "count = 1 \<or> jq_each env (nx (parseHTML env data)) = []")
        case True
        with a d Suc.prems show ?thesis by (auto simp: Let_def)
      next
        case False
        with Suc.prems have "1 \<le> count - 1" "nat (count - 1) \<le> fuel" by auto
        from Suc.IH [OF this, of "lk (nx (parseHTML env data))"
            "result @ ex (parseHTML env data)"]
        obtain r vs where
          "linear_getPages fuel env ex nx lk uri (lk (nx (parseHTML env data)))
             (result @ ex (parseHTML env data)) (count - 1) = Some (r, vs)"
          "int (length vs) \<le> count - 1"
          by blast
        with a d False show ?thesis by (simp add: Let_def)
      qed
    qed
  qed
qed

text \<open>
  C7, as the code has it. A crawl of Pitchfork, Rate Your Music or Reddit stops after a page
  when the budget, decremented at each hop, has come to 1 or the page has no next-page link,
  and goes on otherwise: a crawl that returns a buffer has requested as many pages as the
  budget says, or its last page has no next-page link. With a budget \<open>k \<ge> 1\<close> the crawl ends
  (\<open>k\<close> units of fuel are enough) after at most \<open>k\<close> requests. The budget is
  \<^verbatim>\<open>count || 0\<close> for Pitchfork and Rate Your Music and \<^verbatim>\<open>count || 1\<close> for Reddit; a budget of 0
  or less never comes to 1.
\<close>

theorem linear_crawl_budget:
  "(pitchfork fuel env uri count = Some (Inr buf, vs) \<longrightarrow>
      vs \<noteq> [] \<and> (int (length vs) = count_or count 0
        \<or> \<not> has_next env (pitchfork_next env) (v_uri (last vs))))
   \<and> (rateyourmusic fuel env uri count = Some (Inr buf, vs) \<longrightarrow>
      vs \<noteq> [] \<and> (int (length vs) = count_or count 0
        \<or> \<not> has_next env (rateyourmusic_next env) (v_uri (last vs))))
   \<and> (reddit fuel env uri count = Some (Inr buf, vs) \<longrightarrow>
      vs \<noteq> [] \<and> (int (length vs) = count_or count 1
        \<or> \<not> has_next env (reddit_next env) (v_uri (last vs))))
   \<and> (1 \<le> count_or count 0 \<and> nat (count_or count 0) \<le> fuel \<longrightarrow>
      (\<exists>r vs. pitchfork fuel env uri count = Some (r, vs) \<and>
         int (length vs) \<le> count_or count 0) \<and>
      (\<exists>r vs. rateyourmusic fuel env uri count = Some (r, vs) \<and>
         int (length vs) \<le> count_or count 0))
   \<and> (1 \<le> count_or count 1 \<and> nat (count_or count 1) \<le> fuel \<longrightarrow>
      (\<exists>r vs. reddit fuel env uri count = Some (r, vs) \<and>
         int (length vs) \<le> count_or count 1))"
proof (intro conjI impI)
  assume "pitchfork fuel env uri count = Some (Inr buf, vs)"
  then show "vs \<noteq> []" and "int (length vs) = count_or count 0
        \<or> \<not> has_next env (pitchfork_next env) (v_uri (last vs))"
    unfolding pitchfork_def by (auto dest!: linear_getPages_stop)
next
  assume "rateyourmusic fuel env uri count = Some (Inr buf, vs)"
  then show "vs \<noteq> []" and "int (length vs) = count_or count 0
        \<or> \<not> has_next env (rateyourmusic_next env) (v_uri (last vs))"
    unfolding rateyourmusic_def by (auto dest!: linear_getPages_stop)
next
  assume "reddit fuel env uri count = Some (Inr buf, vs)"
  then show "vs \<noteq> []" and "int (length vs) = count_or count 1
        \<or> \<not> has_next env (reddit_next env) (v_uri (last vs))"
    unfolding reddit_def by (auto dest!: linear_getPages_stop)
next
  assume h: "1 \<le> count_or count 0 \<and> nat (count_or count 0) \<le> fuel"
  then show "\<exists>r vs. pitchfork fuel env uri count = Some (r, vs) \<and>
         int (length vs) \<le> count_or count 0"
    unfolding pitchfork_def by (intro linear_getPages_bound) auto
  from h show "\<exists>r vs. rateyourmusic fuel env uri count = Some (r, vs) \<and>
         int (length vs) \<le> count_or count 0"
    unfolding rateyourmusic_def by (intro linear_getPages_bound) auto
next
  assume h: "1 \<le> count_or count 1 \<and> nat (count_or count 1) \<le> fuel"
  then show "\<exists>r vs. reddit fuel env uri count = Some (r, vs) \<and>
         int (length vs) \<le> count_or count 1"
    unfolding reddit_def by (intro linear_getPages_bound) auto
qed

lemma linear_scenario:
  "requested (pitchfork 2 (toy chart_site) ''https://pitchfork.com/best/1'' (Some 2))
     = Some [''https://pitchfork.com/best/1'', ''https://pitchfork.com/best/2'']"
  "requested (rateyourmusic 2 (toy chart_site) ''https://rateyourmusic.com/charts/1'' (Some 2))
     = Some [''https://rateyourmusic.com/charts/1'', ''https://rateyourmusic.com/charts/2'']"
  "requested (reddit 2 (toy chart_site) ''https://www.reddit.com/r/music/1'' (Some 2))
     = Some [''https://www.reddit.com/r/music/1'', ''https://www.reddit.com/r/music/2'']"
  "has_next (toy chart_site) (pitchfork_next (toy chart_site)) ''https://pitchfork.com/best/2''"
  "has_next (toy chart_site) (rateyourmusic_next (toy chart_site))
     ''https://rateyourmusic.com/charts/2''"
  "has_next (toy chart_site) (reddit_next (toy chart_site)) ''https://www.reddit.com/r/music/2''"
  by code_simp+

theorem linear_crawl_budget_witness:
  "requested (pitchfork 2 (toy chart_site) ''https://pitchfork.com/best/1'' (Some 2))
     = Some [''https://pitchfork.com/best/1'', ''https://pitchfork.com/best/2'']
   \<and> has_next (toy chart_site) (pitchfork_next (toy chart_site)) ''https://pitchfork.com/best/2''
   \<and> requested (rateyourmusic 2 (toy chart_site) ''https://rateyourmusic.com/charts/1'' (Some 2))
     = Some [''https://rateyourmusic.com/charts/1'', ''https://rateyourmusic.com/charts/2'']
   \<and> has_next (toy chart_site) (rateyourmusic_next (toy chart_site))
     ''https://rateyourmusic.com/charts/2''
   \<and> requested (reddit 2 (toy chart_site) ''https://www.reddit.com/r/music/1'' (Some 2))
     = Some [''https://www.reddit.com/r/music/1'', ''https://www.reddit.com/r/music/2'']
   \<and> has_next (toy chart_site) (reddit_next (toy chart_site)) ''https://www.reddit.com/r/music/2''
   \<and> (\<exists>r vs. pitchfork 2 (toy chart_site) ''https://pitchfork.com/best/1'' (Some 2)
          = Some (r, vs) \<and> length vs \<le> 2)"
proof -
  have "(1::int) \<le> count_or (Some 2) 0 \<and> nat (count_or (Some 2) 0) \<le> 2"
    by (simp add: count_or_def)
  with linear_crawl_budget [of 2 "toy chart_site" "''https://pitchfork.com/best/1''" "Some 2"]
  have "\<exists>r vs. pitchfork 2 (toy chart_site) ''https://pitchfork.com/best/1'' (Some 2)
          = Some (r, vs) \<and> int (length vs) \<le> count_or (Some 2) 0"
    by blast
  then have "\<exists>r vs. pitchfork 2 (toy chart_site) ''https://pitchfork.com/best/1'' (Some 2)
          = Some (r, vs) \<and> length vs \<le> 2"
    by (simp add: count_or_def)
  with linear_scenario show ?thesis by simp
qed

text \<open>
  C7 as stated fails for a budget that is not positive: with the budget 0 the crawl of the
  chart goes on to the second, third and fourth page, until there is no next-page link.
\<close>

theorem budget_zero_counterexample:
  "requested (rateyourmusic 5 (toy chart_site) ''https://rateyourmusic.com/charts/1'' (Some 0))
     = Some [''https://rateyourmusic.com/charts/1'', ''https://rateyourmusic.com/charts/2'',
             ''https://rateyourmusic.com/charts/3'', ''https://rateyourmusic.com/charts/4'']"
  by code_simp

section \<open>The choice of the strategy\<close>

text \<open>
  C9, as the code has it. When the URI library accepts the URI, \<^verbatim>\<open>scrape\<close> runs the strategy
  that the table of known hosts gives for the domain of the URI, and the generic single-page
  strategy exactly when the domain is not in the table: the choice is a total function of
  the domain. When \<^verbatim>\<open>URI(uri)\<close> throws, \<^verbatim>\<open>scrape\<close> throws the same error and runs no strategy.
\<close>

theorem scrape_selects_strategy:
  "(uri_domain env uri = Inr d \<longrightarrow>
      scrape fuel env uri count = run_strategy (selectStrategy d) fuel env uri count)
   \<and> (uri_domain env uri = Inl e \<longrightarrow> scrape fuel env uri count = Some (Inl e, []))
   \<and> (selectStrategy host = Generic) = (host \<notin> fst ` set known_hosts)
   \<and> fst ` set known_hosts
     = {''last.fm'', ''pitchfork.com'', ''rateyourmusic.com'', ''reddit.com'', ''youtube.com''}"
  by (simp add: scrape_def selectStrategy_def known_hosts_def)

lemma scrape_scenario:
  "uri_domain (toy links_site) ''https://www.reddit.com/r/music/1'' = Inr ''reddit.com''"
  "uri_domain (toy links_site) ''https://example.org/best-of-1997'' = Inr ''example.org''"
  "uri_domain (toy links_site) ''http://last.fm:abc/x'' = Inl TypeError"
  "selectStrategy ''reddit.com'' = Reddit"
  "selectStrategy ''example.org'' = Generic"
  "webpage (toy links_site) ''https://example.org/best-of-1997''
     = (Inr (''Radiohead - Paranoid Android'' @ newline @ ''Blur - Beetlebum''),
        [\<lparr>v_uri = ''https://example.org/best-of-1997'', v_pushed = []\<rparr>])"
  by code_simp+

theorem scrape_selects_strategy_witness:
  "scrape 1 (toy links_site) ''https://www.reddit.com/r/music/1'' (Some 1)
     = reddit 1 (toy links_site) ''https://www.reddit.com/r/music/1'' (Some 1)
   \<and> scrape 1 (toy links_site) ''https://example.org/best-of-1997'' (Some 1)
     = Some (Inr (''Radiohead - Paranoid Android'' @ newline @ ''Blur - Beetlebum''),
             [\<lparr>v_uri = ''https://example.org/best-of-1997'', v_pushed = []\<rparr>])
   \<and> scrape 1 (toy links_site) ''http://last.fm:abc/x'' (Some 1) = Some (Inl TypeError, [])"
  using scrape_selects_strategy [of "toy links_site" "''https://www.reddit.com/r/music/1''"
      "''reddit.com''" 1 "Some 1"]
    scrape_selects_strategy [of "toy links_site" "''https://example.org/best-of-1997''"
      "''example.org''" 1 "Some 1"]
    scrape_selects_strategy [of "toy links_site" "''http://last.fm:abc/x''" _ 1 "Some 1"
      TypeError]
    scrape_scenario
  by simp

text \<open>
  C9 as stated fails for a URI that the URI library refuses: the port of
  \<^verbatim>\<open>http://last.fm:abc/x\<close> is not a number, \<^verbatim>\<open>URI(uri)\<close> throws a \<^verbatim>\<open>TypeError\<close>, and \<^verbatim>\<open>scrape\<close>
  fails before it has chosen a strategy; no page is requested.
\<close>

theorem scrape_throws_counterexample:
  "scrape 1 (toy links_site) ''http://last.fm:abc/x'' (Some 1) = Some (Inl TypeError, [])"
  by code_simp


end
